theory Spec2Isabelle
  imports Complex_Main
begin

section \<open>Python values shared by the three clients\<close>

text \<open>
  Python \<open>str\<close> values are modelled as \<open>string\<close>; text outside ASCII is written as its
  UTF-8 bytes.  A decoded JSON document is a \<open>json\<close> value; a JSON object is an
  association list read with \<open>map_of\<close>.  JSON numbers are integers (\<open>expires_in\<close>,
  \<open>error_code\<close>); non-integral numbers are outside the model.
\<close>

datatype json =
    JNull
  | JBool bool
  | JNum int
  | JStr string
  | JArr "json list"
  | JObj "(string \<times> json) list"

text \<open>
  An f-string is kept as the sequence of its literal and interpolated parts; Python renders
  every interpolated value with \<open>str()\<close>.
\<close>

datatype fpart = Lit string | FmtJson json | FmtInt int | FmtStr string

datatype error =
    AttributeError string
  | KeyError string
  | TypeError
  | ValueError "fpart list"
  | JSONDecodeError
  | HTTPError int
  | ConnectionError string

text \<open>Truthiness of an optional string (\<open>None\<close> and \<open>''\<close> are falsy) and \<open>a or b\<close>.\<close>

definition truthy :: "string option \<Rightarrow> bool" where
  "truthy a = (case a of None \<Rightarrow> False | Some s \<Rightarrow> s \<noteq> [])"

definition py_or :: "string option \<Rightarrow> string option \<Rightarrow> string option" where
  "py_or a b = (if truthy a then a else b)"

definition opt_json :: "string option \<Rightarrow> json" where
  "opt_json a = (case a of None \<Rightarrow> JNull | Some s \<Rightarrow> JStr s)"

fun startswith :: "string \<Rightarrow> string \<Rightarrow> bool" where
  "startswith s [] = True"
| "startswith [] (p # ps) = False"
| "startswith (c # s) (p # ps) = (c = p \<and> startswith s ps)"

fun contains_str :: "string \<Rightarrow> string \<Rightarrow> bool" where
  "contains_str [] k = (k = [])"
| "contains_str (c # s) k = (startswith (c # s) k \<or> contains_str s k)"

text \<open>\<open>key in data\<close>: dict membership, list membership, substring test; other values raise.\<close>

fun py_contains :: "string \<Rightarrow> json \<Rightarrow> error + bool" where
  "py_contains key (JObj kvs) = Inr (map_of kvs key \<noteq> None)"
| "py_contains key (JArr xs) = Inr (List.member xs (JStr key))"
| "py_contains key (JStr s) = Inr (contains_str s key)"
| "py_contains key v = Inl TypeError"

text \<open>\<open>data[key]\<close> with a string key.\<close>

fun py_index :: "json \<Rightarrow> string \<Rightarrow> error + json" where
  "py_index (JObj kvs) key =
     (case map_of kvs key of None \<Rightarrow> Inl (KeyError key) | Some v \<Rightarrow> Inr v)"
| "py_index v key = Inl TypeError"

text \<open>\<open>data.get(key, default)\<close>: only a dict has the method.\<close>

fun py_get :: "json \<Rightarrow> string \<Rightarrow> json \<Rightarrow> error + json" where
  "py_get (JObj kvs) key dflt =
     (case map_of kvs key of None \<Rightarrow> Inr dflt | Some v \<Rightarrow> Inr v)"
| "py_get v key dflt = Inl (AttributeError ''get'')"

text \<open>
  \<open>for item in value\<close>: a list yields its elements, a dict its keys, a string its
  characters (here: its bytes; every such item is a string again); \<open>None\<close>, booleans
  and numbers are not iterable.
\<close>

fun py_iter :: "json \<Rightarrow> error + json list" where
  "py_iter (JArr xs) = Inr xs"
| "py_iter (JObj kvs) = Inr (map (\<lambda>kv. JStr (fst kv)) kvs)"
| "py_iter (JStr s) = Inr (map (\<lambda>c. JStr [c]) s)"
| "py_iter v = Inl TypeError"

text \<open>
  A value used as a summand next to a float: numbers and booleans only.  The sum is taken
  over the reals; the rounding and the overflow of Python's floats are outside the model.
\<close>

fun py_num :: "json \<Rightarrow> error + real" where
  "py_num (JNum n) = Inr (real_of_int n)"
| "py_num (JBool b) = Inr (if b then 1 else 0)"
| "py_num v = Inl TypeError"

subsection \<open>HTTP through \<open>requests.Session\<close>\<close>

datatype body = FormData "(string \<times> json) list" | JsonData json

record request =
  req_url :: string
  req_headers :: "(string \<times> string option) list"
  req_body :: body
  req_proxy :: "string option"

text \<open>\<open>resp_json = None\<close>: the body does not parse, \<open>response.json()\<close> raises.\<close>

record http_response =
  status_code :: int
  resp_text :: string
  resp_json :: "json option"

text \<open>The network is a parameter: it answers a request or raises.\<close>

type_synonym network = "request \<Rightarrow> error + http_response"

section \<open>Baidu AI client (\<open>baidu_ai_client.py\<close>)\<close>

text \<open>The enumeration \<open>BaiduAIService\<close> declares exactly these five members.\<close>

datatype BaiduAIService = TTS | OCR | WENXIN | NLP | IMAGE

fun service_value :: "BaiduAIService \<Rightarrow> string" where
  "service_value TTS = ''tts''"
| "service_value OCR = ''ocr''"
| "service_value WENXIN = ''wenxin''"
| "service_value NLP = ''nlp''"
| "service_value IMAGE = ''image''"

text \<open>
  Attribute access \<open>BaiduAIService.NAME\<close>: a declared member, or \<open>AttributeError\<close>.
\<close>

definition BaiduAIService_getattr :: "string \<Rightarrow> error + BaiduAIService" where
  "BaiduAIService_getattr name =
     (if name = ''TTS'' then Inr TTS
      else if name = ''OCR'' then Inr OCR
      else if name = ''WENXIN'' then Inr WENXIN
      else if name = ''NLP'' then Inr NLP
      else if name = ''IMAGE'' then Inr IMAGE
      else Inl (AttributeError name))"

record OCRConfig =
  image_data :: string
  language_type :: string
  detect_direction :: bool
  detect_language :: bool
  paragraph_flag :: bool

text \<open>
  The client object.  \<open>tokens\<close> and \<open>token_expiry\<close> are the dictionaries \<open>_tokens\<close> and
  \<open>_token_expiry\<close>, keyed by the cache key; the session is represented by the proxy it was
  configured with.
\<close>

record BaiduAIClient =
  api_key :: "string option"
  secret_key :: "string option"
  proxy :: "string option"
  cache_tokens :: bool
  tokens :: "string \<rightharpoonup> json"
  token_expiry :: "string \<rightharpoonup> real"
  endpoints :: "BaiduAIService \<rightharpoonup> string"

text \<open>The dict display of \<open>__init__\<close>: keys are evaluated left to right.\<close>

fun build_endpoints ::
  "(string \<times> string) list \<Rightarrow> (BaiduAIService \<rightharpoonup> string) \<Rightarrow> error + (BaiduAIService \<rightharpoonup> string)" where
  "build_endpoints [] m = Inr m"
| "build_endpoints ((name, url) # rest) m =
     (case BaiduAIService_getattr name of
        Inl e \<Rightarrow> Inl e
      | Inr k \<Rightarrow> build_endpoints rest (m(k \<mapsto> url)))"

definition endpoint_table :: "(string \<times> string) list" where
  "endpoint_table =
     [(''TTS'', ''https://tsn.baidubce.com/text2audio''),
      (''OCR_GENERAL'', ''https://aip.baidubce.com/rest/2.0/ocr/v1/general_basic''),
      (''OCR_ACCURATE'', ''https://aip.baidubce.com/rest/2.0/ocr/v1/accurate_basic''),
      (''WENXIN'', ''https://aip.baidubce.com/rpc/2.0/ernievilg/v1/txt2img''),
      (''TOKEN'', ''https://aip.baidubce.com/oauth/2.0/token'')]"

text \<open>\<open>BaiduAIClient.__init__\<close>; \<open>env\<close> is the process environment (\<open>os.getenv\<close>).\<close>

definition BaiduAIClient_init ::
  "(string \<rightharpoonup> string) \<Rightarrow> string option \<Rightarrow> string option \<Rightarrow> string option \<Rightarrow> bool
     \<Rightarrow> error + BaiduAIClient" where
  "BaiduAIClient_init env key secret prx cache =
     (case build_endpoints endpoint_table Map.empty of
        Inl e \<Rightarrow> Inl e
      | Inr eps \<Rightarrow>
          Inr \<lparr> api_key = py_or key (env ''BAIDU_API_KEY''),
                secret_key = py_or secret (env ''BAIDU_SECRET_KEY''),
                proxy = prx,
                cache_tokens = cache,
                tokens = Map.empty,
                token_expiry = Map.empty,
                endpoints = eps \<rparr>)"

definition msg_token_failed :: string where
  "msg_token_failed =
     [CHR 0xE8, CHR 0x8E, CHR 0xB7, CHR 0xE5, CHR 0x8F, CHR 0x96] @ ''Token''
     @ [CHR 0xE5, CHR 0xA4, CHR 0xB1, CHR 0xE8, CHR 0xB4, CHR 0xA5] @ '': ''"

definition msg_baidu_error :: string where
  "msg_baidu_error =
     [CHR 0xE7, CHR 0x99, CHR 0xBE, CHR 0xE5, CHR 0xBA, CHR 0xA6] @ ''AI''
     @ [CHR 0xE9, CHR 0x94, CHR 0x99, CHR 0xE8, CHR 0xAF, CHR 0xAF] @ '': ''"

definition msg_unknown_error :: string where
  "msg_unknown_error =
     [CHR 0xE6, CHR 0x9C, CHR 0xAA, CHR 0xE7, CHR 0x9F, CHR 0xA5,
      CHR 0xE9, CHR 0x94, CHR 0x99, CHR 0xE8, CHR 0xAF, CHR 0xAF]"

definition msg_ocr_error :: string where
  "msg_ocr_error =
     ''OCR'' @ [CHR 0xE9, CHR 0x94, CHR 0x99, CHR 0xE8, CHR 0xAF, CHR 0xAF] @ '' ''"

definition msg_ocr_accurate_error :: string where
  "msg_ocr_accurate_error =
     ''OCR'' @ [CHR 0xE9, CHR 0xAB, CHR 0x98, CHR 0xE7, CHR 0xB2, CHR 0xBE, CHR 0xE5, CHR 0xBA,
                CHR 0xA6, CHR 0xE9, CHR 0x94, CHR 0x99, CHR 0xE8, CHR 0xAF, CHR 0xAF] @ '' ''"

definition cache_key :: "BaiduAIService option \<Rightarrow> string" where
  "cache_key service = (case service of Some s \<Rightarrow> service_value s | None \<Rightarrow> ''default'')"

text \<open>The test of lines 116-118; \<open>now\<close> is the reading of \<open>time.time()\<close>.\<close>

definition cache_hit :: "BaiduAIClient \<Rightarrow> string \<Rightarrow> real \<Rightarrow> bool" where
  "cache_hit c k now =
     (cache_tokens c \<and> tokens c k \<noteq> None \<and>
      (case token_expiry c k of None \<Rightarrow> False | Some expiry \<Rightarrow> now < expiry))"

definition token_params :: "BaiduAIClient \<Rightarrow> BaiduAIService option \<Rightarrow> (string \<times> json) list" where
  "token_params c service =
     [(''grant_type'', JStr ''client_credentials''),
      (''client_id'', opt_json (api_key c)),
      (''client_secret'', opt_json (secret_key c))]
     @ (if service = Some TTS then [(''scope'', JStr ''audio_tts_post'')]
        else if service = Some OCR then [(''scope'', JStr ''brain_ocr_general_basic'')]
        else if service = Some WENXIN then [(''scope'', JStr ''brain_all_scope'')]
        else [])"

text \<open>
  Lines 138-154 of \<open>get_access_token\<close>: what is done with the token endpoint's response.
  \<open>now\<close> is the reading of \<open>time.time()\<close> on line 152.  \<open>_tokens\<close> is written before the
  expiry is computed, so a \<open>TypeError\<close> there leaves the token stored without an expiry.
\<close>

definition token_response ::
  "real \<Rightarrow> string \<Rightarrow> http_response \<Rightarrow> BaiduAIClient \<Rightarrow> (error + json) \<times> BaiduAIClient" where
  "token_response now k resp c =
     (if status_code resp \<noteq> 200
      then (Inl (ValueError [Lit msg_token_failed, FmtInt (status_code resp),
                             Lit '' - '', FmtStr (resp_text resp)]), c)
      else case resp_json resp of
        None \<Rightarrow> (Inl JSONDecodeError, c)
      | Some data \<Rightarrow>
         (case py_contains ''error'' data of
            Inl e \<Rightarrow> (Inl e, c)
          | Inr True \<Rightarrow>
             (case py_get data ''error_description'' (JStr msg_unknown_error) of
                Inl e \<Rightarrow> (Inl e, c)
              | Inr d \<Rightarrow> (Inl (ValueError [Lit msg_baidu_error, FmtJson d]), c))
          | Inr False \<Rightarrow>
             (case py_index data ''access_token'' of
                Inl e \<Rightarrow> (Inl e, c)
              | Inr access_token \<Rightarrow>
                 (case py_index data ''expires_in'' of
                    Inl e \<Rightarrow> (Inl e, c)
                  | Inr expires_in \<Rightarrow>
                     if cache_tokens c
                     then (let c1 = c\<lparr>tokens := (tokens c)(k \<mapsto> access_token)\<rparr>
                           in case py_num expires_in of
                                Inl e \<Rightarrow> (Inl e, c1)
                              | Inr ttl \<Rightarrow>
                                  (Inr access_token,
                                   c1\<lparr>token_expiry := (token_expiry c1)(k \<mapsto> now + ttl - 300)\<rparr>))
                     else (Inr access_token, c)))))"

text \<open>
  \<open>get_access_token\<close>.  \<open>t_check\<close> and \<open>t_store\<close> are the two readings of the clock (lines
  118 and 152).  The result is the returned token or the raised error, the client
  afterwards, and the requests sent to the network.  On line 136 the argument
  \<open>self.endpoints[BaiduAIService.TOKEN]\<close> is evaluated before the POST is issued.
\<close>

definition get_access_token ::
  "network \<Rightarrow> real \<Rightarrow> real \<Rightarrow> BaiduAIService option \<Rightarrow> BaiduAIClient
     \<Rightarrow> (error + json) \<times> BaiduAIClient \<times> request list" where
  "get_access_token net t_check t_store service c =
     (let k = cache_key service in
      if cache_hit c k t_check
      then (case tokens c k of
              Some tok \<Rightarrow> (Inr tok, c, [])
            | None \<Rightarrow> (Inl (KeyError k), c, []))
      else
        (let params = token_params c service in
         case BaiduAIService_getattr ''TOKEN'' of
           Inl e \<Rightarrow> (Inl e, c, [])
         | Inr member \<Rightarrow>
            (case endpoints c member of
               None \<Rightarrow> (Inl (KeyError ''TOKEN''), c, [])
             | Some url \<Rightarrow>
                (let req = \<lparr> req_url = url, req_headers = [],
                             req_body = FormData params, req_proxy = proxy c \<rparr>
                 in case net req of
                      Inl e \<Rightarrow> (Inl e, c, [req])
                    | Inr resp \<Rightarrow>
                        (let (r, c') = token_response t_store k resp c
                         in (r, c', [req]))))))"

text \<open>
  The result extractor, lines 233-241 of \<open>ocr_general\<close> and 279-287 of \<open>ocr_accurate\<close>
  (they differ in the message prefix only).  \<open>words_loop\<close> is the \<open>for\<close> loop with its
  accumulator \<open>words\<close>.
\<close>

fun words_loop :: "json list \<Rightarrow> json list \<Rightarrow> error + json list" where
  "words_loop words [] = Inr words"
| "words_loop words (item # items) =
     (case py_get item ''words'' (JStr []) of
        Inl e \<Rightarrow> Inl e
      | Inr w \<Rightarrow> words_loop (words @ [w]) items)"

definition extract_words :: "string \<Rightarrow> json \<Rightarrow> error + json list" where
  "extract_words prefix data =
     (case py_contains ''error_code'' data of
        Inl e \<Rightarrow> Inl e
      | Inr True \<Rightarrow>
         (case py_index data ''error_code'' of
            Inl e \<Rightarrow> Inl e
          | Inr code \<Rightarrow>
             (case py_get data ''error_msg'' (JStr msg_unknown_error) of
                Inl e \<Rightarrow> Inl e
              | Inr msg \<Rightarrow>
                  Inl (ValueError [Lit prefix, FmtJson code, Lit '': '', FmtJson msg])))
      | Inr False \<Rightarrow>
         (case py_get data ''words_result'' (JArr []) of
            Inl e \<Rightarrow> Inl e
          | Inr wr \<Rightarrow>
             (case py_iter wr of
                Inl e \<Rightarrow> Inl e
              | Inr items \<Rightarrow> words_loop [] items)))"

definition ocr_response :: "string \<Rightarrow> http_response \<Rightarrow> error + json list" where
  "ocr_response prefix resp =
     (case resp_json resp of
        None \<Rightarrow> Inl JSONDecodeError
      | Some data \<Rightarrow> extract_words prefix data)"

definition ocr_params :: "(string \<Rightarrow> string) \<Rightarrow> json \<Rightarrow> OCRConfig \<Rightarrow> (string \<times> json) list" where
  "ocr_params b64encode access_token config =
     [(''access_token'', access_token),
      (''image'', JStr (b64encode (image_data config))),
      (''language_type'', JStr (language_type config)),
      (''detect_direction'', JStr (if detect_direction config then ''true'' else ''false'')),
      (''detect_language'', JStr (if detect_language config then ''true'' else ''false'')),
      (''paragraph'', JStr (if paragraph_flag config then ''true'' else ''false''))]"

text \<open>
  \<open>ocr_general\<close> and \<open>ocr_accurate\<close> share everything but the endpoint member and the
  message prefix.  \<open>b64encode\<close> is \<open>base64.b64encode\<close> followed by \<open>decode\<close>.
\<close>

definition ocr_call ::
  "string \<Rightarrow> string \<Rightarrow> network \<Rightarrow> (string \<Rightarrow> string) \<Rightarrow> real \<Rightarrow> real \<Rightarrow> OCRConfig \<Rightarrow> BaiduAIClient
     \<Rightarrow> (error + json list) \<times> BaiduAIClient \<times> request list" where
  "ocr_call member_name prefix net b64encode t_check t_store config c =
     (case get_access_token net t_check t_store (Some OCR) c of
        (Inl e, c', reqs) \<Rightarrow> (Inl e, c', reqs)
      | (Inr access_token, c', reqs) \<Rightarrow>
         (let params = ocr_params b64encode access_token config;
              headers = [(''Content-Type'', Some ''application/x-www-form-urlencoded'')]
          in case BaiduAIService_getattr member_name of
               Inl e \<Rightarrow> (Inl e, c', reqs)
             | Inr member \<Rightarrow>
                (case endpoints c' member of
                   None \<Rightarrow> (Inl (KeyError member_name), c', reqs)
                 | Some url \<Rightarrow>
                    (let req = \<lparr> req_url = url, req_headers = headers,
                                 req_body = FormData params, req_proxy = proxy c' \<rparr>
                     in case net req of
                          Inl e \<Rightarrow> (Inl e, c', reqs @ [req])
                        | Inr resp \<Rightarrow> (ocr_response prefix resp, c', reqs @ [req])))))"

definition ocr_general ::
  "network \<Rightarrow> (string \<Rightarrow> string) \<Rightarrow> real \<Rightarrow> real \<Rightarrow> OCRConfig \<Rightarrow> BaiduAIClient
     \<Rightarrow> (error + json list) \<times> BaiduAIClient \<times> request list" where
  "ocr_general = ocr_call ''OCR_GENERAL'' msg_ocr_error"

definition ocr_accurate ::
  "network \<Rightarrow> (string \<Rightarrow> string) \<Rightarrow> real \<Rightarrow> real \<Rightarrow> OCRConfig \<Rightarrow> BaiduAIClient
     \<Rightarrow> (error + json list) \<times> BaiduAIClient \<times> request list" where
  "ocr_accurate = ocr_call ''OCR_ACCURATE'' msg_ocr_accurate_error"


section \<open>DingTalk assistant (\<open>dingtalk_assistant.py\<close>)\<close>

subsection \<open>\<open>json.dumps(value, ensure_ascii=False)\<close>\<close>

definition hex_digit :: "nat \<Rightarrow> char" where
  "hex_digit n = ''0123456789abcdef'' ! n"

definition escape_char :: "char \<Rightarrow> string" where
  "escape_char c =
     (if c = CHR 0x22 then [CHR 0x5C, CHR 0x22]
      else if c = CHR 0x5C then [CHR 0x5C, CHR 0x5C]
      else if c = CHR 0x0A then [CHR 0x5C, CHR ''n'']
      else if c = CHR 0x0D then [CHR 0x5C, CHR ''r'']
      else if c = CHR 0x09 then [CHR 0x5C, CHR ''t'']
      else if c = CHR 0x08 then [CHR 0x5C, CHR ''b'']
      else if c = CHR 0x0C then [CHR 0x5C, CHR ''f'']
      else if (of_char c :: nat) < 32
      then [CHR 0x5C, CHR ''u'', CHR ''0'', CHR ''0'',
            hex_digit ((of_char c :: nat) div 16), hex_digit ((of_char c :: nat) mod 16)]
      else [c])"

definition json_string :: "string \<Rightarrow> string" where
  "json_string s = CHR 0x22 # concat (map escape_char s) @ [CHR 0x22]"

fun str_nat :: "nat \<Rightarrow> string" where
  "str_nat n =
     (if n < 10 then [''0123456789'' ! n]
      else str_nat (n div 10) @ [''0123456789'' ! (n mod 10)])"

definition str_int :: "int \<Rightarrow> string" where
  "str_int i = (if i < 0 then CHR ''-'' # str_nat (nat (- i)) else str_nat (nat i))"

fun join :: "string \<Rightarrow> string list \<Rightarrow> string" where
  "join sep [] = []"
| "join sep [x] = x"
| "join sep (x # y # ys) = x @ sep @ join sep (y # ys)"

fun json_dumps :: "json \<Rightarrow> string" where
  "json_dumps JNull = ''null''"
| "json_dumps (JBool b) = (if b then ''true'' else ''false'')"
| "json_dumps (JNum n) = str_int n"
| "json_dumps (JStr s) = json_string s"
| "json_dumps (JArr xs) = ''['' @ join '', '' (map json_dumps xs) @ '']''"
| "json_dumps (JObj kvs) =
     ''{'' @ join '', '' (map (\<lambda>(k, v). json_string k @ '': '' @ json_dumps v) kvs) @ ''}''"

subsection \<open>The assistant\<close>

record DingTalkAssistant =
  access_token :: "string option"
  base_url :: string
  dt_proxy :: "string option"

text \<open>\<open>DingTalkAssistant.__init__\<close>; \<open>env\<close> is the process environment.\<close>

definition DingTalkAssistant_init ::
  "(string \<rightharpoonup> string) \<Rightarrow> string option \<Rightarrow> string option \<Rightarrow> DingTalkAssistant" where
  "DingTalkAssistant_init env token prx =
     \<lparr> access_token = py_or token (env ''DINGTALK_ACCESS_TOKEN''),
       base_url = ''https://api.dingtalk.com/v1.0'',
       dt_proxy = prx \<rparr>"

definition msg_token_unset :: string where
  "msg_token_unset =
     ''Access Token''
     @ [CHR 0xE6, CHR 0x9C, CHR 0xAA, CHR 0xE8, CHR 0xAE, CHR 0xBE, CHR 0xE7, CHR 0xBD, CHR 0xAE,
        CHR 0xEF, CHR 0xBC, CHR 0x8C, CHR 0xE8, CHR 0xAF, CHR 0xB7, CHR 0xE5, CHR 0x85, CHR 0x88,
        CHR 0xE8, CHR 0xB0, CHR 0x83, CHR 0xE7, CHR 0x94, CHR 0xA8]
     @ ''get_access_token''
     @ [CHR 0xE6, CHR 0x88, CHR 0x96, CHR 0xE8, CHR 0xAE, CHR 0xBE, CHR 0xE7, CHR 0xBD, CHR 0xAE,
        CHR 0xE7, CHR 0x8E, CHR 0xAF, CHR 0xE5, CHR 0xA2, CHR 0x83, CHR 0xE5, CHR 0x8F, CHR 0x98,
        CHR 0xE9, CHR 0x87, CHR 0x8F]"

definition msg_robot_unset :: string where
  "msg_robot_unset =
     [CHR 0xE6, CHR 0x9C, CHR 0xBA, CHR 0xE5, CHR 0x99, CHR 0xA8, CHR 0xE4, CHR 0xBA, CHR 0xBA]
     @ ''Code''
     @ [CHR 0xE6, CHR 0x9C, CHR 0xAA, CHR 0xE8, CHR 0xAE, CHR 0xBE, CHR 0xE7, CHR 0xBD, CHR 0xAE]"

text \<open>
  The request every send operation builds: the batch-send URL, the token header and the
  JSON body.  A header or body value that is \<open>None\<close> stays \<open>None\<close> (\<open>JNull\<close>).
\<close>

definition send_request ::
  "DingTalkAssistant \<Rightarrow> string option \<Rightarrow> json \<Rightarrow> string \<Rightarrow> json \<Rightarrow> request" where
  "send_request c robot_code user_ids msg_key msg_param =
     \<lparr> req_url = base_url c @ ''/robot/oToMessages/batchSend'',
       req_headers = [(''x-acs-dingtalk-access-token'', access_token c),
                      (''Content-Type'', Some ''application/json'')],
       req_body = JsonData (JObj [(''robotCode'', opt_json robot_code),
                                  (''userIds'', user_ids),
                                  (''msgKey'', JStr msg_key),
                                  (''msgParam'', JStr (json_dumps msg_param))]),
       req_proxy = dt_proxy c \<rparr>"

text \<open>\<open>session.post\<close>, \<open>response.raise_for_status()\<close>, \<open>response.json()\<close>.\<close>

definition post_and_decode :: "network \<Rightarrow> request \<Rightarrow> (error + json) \<times> request list" where
  "post_and_decode net req =
     (case net req of
        Inl e \<Rightarrow> (Inl e, [req])
      | Inr resp \<Rightarrow>
         (if 400 \<le> status_code resp \<and> status_code resp < 600
          then (Inl (HTTPError (status_code resp)), [req])
          else case resp_json resp of
                 None \<Rightarrow> (Inl JSONDecodeError, [req])
               | Some j \<Rightarrow> (Inr j, [req])))"

text \<open>
  The send operations.  Each returns the decoded answer or the raised error, and the
  requests it sent.  \<open>env\<close> is the process environment at the time of the call.
\<close>

definition send_text_message ::
  "network \<Rightarrow> (string \<rightharpoonup> string) \<Rightarrow> DingTalkAssistant \<Rightarrow> string \<Rightarrow> string \<Rightarrow> string option
     \<Rightarrow> (error + json) \<times> request list" where
  "send_text_message net env c user_id content robot_code =
     (if \<not> truthy (access_token c) then (Inl (ValueError [Lit msg_token_unset]), [])
      else
        (let robot_code = py_or robot_code (env ''DINGTALK_ROBOT_CODE'') in
         if \<not> truthy robot_code then (Inl (ValueError [Lit msg_robot_unset]), [])
         else post_and_decode net
                (send_request c robot_code (JArr [JStr user_id]) ''sampleText''
                   (JObj [(''content'', JStr content)]))))"

definition send_markdown_message ::
  "network \<Rightarrow> (string \<rightharpoonup> string) \<Rightarrow> DingTalkAssistant \<Rightarrow> string \<Rightarrow> string \<Rightarrow> string
     \<Rightarrow> string option \<Rightarrow> (error + json) \<times> request list" where
  "send_markdown_message net env c user_id title txt robot_code =
     (let robot_code = py_or robot_code (env ''DINGTALK_ROBOT_CODE'') in
      post_and_decode net
        (send_request c robot_code (JArr [JStr user_id]) ''sampleMarkdown''
           (JObj [(''title'', JStr title), (''text'', JStr txt)])))"

definition send_link_message ::
  "network \<Rightarrow> (string \<rightharpoonup> string) \<Rightarrow> DingTalkAssistant \<Rightarrow> string \<Rightarrow> string \<Rightarrow> string \<Rightarrow> string
     \<Rightarrow> string option \<Rightarrow> string option \<Rightarrow> (error + json) \<times> request list" where
  "send_link_message net env c user_id title txt message_url pic_url robot_code =
     (let robot_code = py_or robot_code (env ''DINGTALK_ROBOT_CODE'');
          msg_param = [(''title'', JStr title), (''text'', JStr txt),
                       (''messageUrl'', JStr message_url)]
                      @ (if truthy pic_url then [(''picUrl'', opt_json pic_url)] else [])
      in post_and_decode net
           (send_request c robot_code (JArr [JStr user_id]) ''sampleLink'' (JObj msg_param)))"

definition batch_send ::
  "network \<Rightarrow> (string \<rightharpoonup> string) \<Rightarrow> DingTalkAssistant \<Rightarrow> string list \<Rightarrow> string \<Rightarrow> json
     \<Rightarrow> string option \<Rightarrow> (error + json) \<times> request list" where
  "batch_send net env c user_ids msg_key msg_param robot_code =
     (let robot_code = py_or robot_code (env ''DINGTALK_ROBOT_CODE'') in
      post_and_decode net
        (send_request c robot_code (JArr (map JStr user_ids)) msg_key msg_param))"

section \<open>Chinese speech recognition (\<open>chinese_asr.py\<close>)\<close>

datatype RecognitionMode = GOOGLE | VOSK | HYBRID

record RecognitionResult =
  res_text :: string
  confidence :: real
  mode :: RecognitionMode
  processing_time :: real
  language :: string
  error :: "string option"

record ASRConfig =
  cfg_mode :: RecognitionMode
  cfg_language :: string
  cfg_proxy :: "string option"
  vosk_model_path :: "string option"
  google_api_key :: "string option"
  auto_convert_formats :: bool
  sample_rate :: int
  channels :: int

text \<open>The recognizer object; \<open>vosk_model\<close> tells whether a model object is loaded.\<close>

record ChineseSpeechRecognizer =
  config :: ASRConfig
  vosk_model :: bool

subsection \<open>The world outside the recognizer\<close>

text \<open>
  The state of the world: the paths that exist, the clock, and a log of what the
  recognizer did to the outside (temporary files created, processes started, engines
  called, files removed).
\<close>

datatype event =
    TempFile string
  | Ffmpeg "string list"
  | GoogleCall string
  | VoskCall string
  | Removed string

record world =
  files :: "string set"
  now :: real
  log :: "event list"

text \<open>
  \<open>subprocess.run(cmd, check=True)\<close>: the process exits with a code and leaves a set of
  paths behind, or the executable is not found (\<open>FileNotFoundError\<close> with its text).  Any
  other error of starting the process (a \<open>PermissionError\<close>, say) is not among the
  outcomes.
\<close>

datatype proc = Exited int "string set" | NotFound string

datatype google_outcome =
    Recognized string
  | UnknownValueError
  | RequestError string
  | OtherError string

datatype vosk_outcome =
    Transcribed string
  | ImportError
  | VoskError string

text \<open>
  The external collaborators, as parameters: \<open>tempfile.NamedTemporaryFile\<close> (from the
  existing paths and a suffix to the new path), \<open>subprocess.run\<close>, the two recognition
  engines (from a path and the existing paths to an outcome and the seconds it took),
  \<open>Path(p).suffix.lower()\<close>, and the text of the error \<open>os.remove\<close> raises for a missing
  path.
\<close>

record asr_env =
  mktemp :: "string set \<Rightarrow> string \<Rightarrow> string"
  run :: "string list \<Rightarrow> string set \<Rightarrow> proc"
  google_engine :: "string \<Rightarrow> string set \<Rightarrow> google_outcome \<times> real"
  vosk_engine :: "string \<Rightarrow> string set \<Rightarrow> vosk_outcome \<times> real"
  suffix_lower :: "string \<Rightarrow> string"
  remove_error :: "string \<Rightarrow> string"

definition msg_file_missing :: string where
  "msg_file_missing =
     [CHR 0xE6, CHR 0x96, CHR 0x87, CHR 0xE4, CHR 0xBB, CHR 0xB6, CHR 0xE4, CHR 0xB8, CHR 0x8D,
      CHR 0xE5, CHR 0xAD, CHR 0x98, CHR 0xE5, CHR 0x9C, CHR 0xA8] @ '': ''"

definition msg_unrecognized :: string where
  "msg_unrecognized =
     [CHR 0xE6, CHR 0x97, CHR 0xA0, CHR 0xE6, CHR 0xB3, CHR 0x95, CHR 0xE8, CHR 0xAF, CHR 0x86,
      CHR 0xE5, CHR 0x88, CHR 0xAB, CHR 0xE9, CHR 0x9F, CHR 0xB3, CHR 0xE9, CHR 0xA2, CHR 0x91]"

definition msg_google_request :: string where
  "msg_google_request =
     ''Google API''
     @ [CHR 0xE8, CHR 0xAF, CHR 0xB7, CHR 0xE6, CHR 0xB1, CHR 0x82, CHR 0xE5, CHR 0xA4, CHR 0xB1,
        CHR 0xE8, CHR 0xB4, CHR 0xA5] @ '': ''"

definition msg_recognize_error :: string where
  "msg_recognize_error =
     [CHR 0xE8, CHR 0xAF, CHR 0x86, CHR 0xE5, CHR 0x88, CHR 0xAB, CHR 0xE8, CHR 0xBF, CHR 0x87,
      CHR 0xE7, CHR 0xA8, CHR 0x8B, CHR 0xE9, CHR 0x94, CHR 0x99, CHR 0xE8, CHR 0xAF, CHR 0xAF]
     @ '': ''"

definition msg_vosk_unloaded :: string where
  "msg_vosk_unloaded =
     ''Vosk''
     @ [CHR 0xE6, CHR 0xA8, CHR 0xA1, CHR 0xE5, CHR 0x9E, CHR 0x8B, CHR 0xE6, CHR 0x9C, CHR 0xAA,
        CHR 0xE5, CHR 0x8A, CHR 0xA0, CHR 0xE8, CHR 0xBD, CHR 0xBD]"

definition msg_vosk_missing :: string where
  "msg_vosk_missing =
     ''Vosk''
     @ [CHR 0xE6, CHR 0x9C, CHR 0xAA, CHR 0xE5, CHR 0xAE, CHR 0x89, CHR 0xE8, CHR 0xA3, CHR 0x85]"

definition msg_vosk_failed :: string where
  "msg_vosk_failed =
     ''Vosk''
     @ [CHR 0xE8, CHR 0xAF, CHR 0x86, CHR 0xE5, CHR 0x88, CHR 0xAB, CHR 0xE5, CHR 0xA4, CHR 0xB1,
        CHR 0xE8, CHR 0xB4, CHR 0xA5] @ '': ''"

definition msg_dingtalk_failed :: string where
  "msg_dingtalk_failed =
     [CHR 0xE9, CHR 0x92, CHR 0x89, CHR 0xE9, CHR 0x92, CHR 0x89, CHR 0xE8, CHR 0xAF, CHR 0xAD,
      CHR 0xE9, CHR 0x9F, CHR 0xB3, CHR 0xE5, CHR 0xA4, CHR 0x84, CHR 0xE7, CHR 0x90, CHR 0x86,
      CHR 0xE5, CHR 0xA4, CHR 0xB1, CHR 0xE8, CHR 0xB4, CHR 0xA5] @ '': ''"

text \<open>A result with empty text and an error message.\<close>

definition failure :: "ASRConfig \<Rightarrow> RecognitionMode \<Rightarrow> real \<Rightarrow> string \<Rightarrow> RecognitionResult" where
  "failure cfg m t msg =
     \<lparr> res_text = [], confidence = 0, mode = m, processing_time = t,
       language = cfg_language cfg, error = Some msg \<rparr>"

definition add_event :: "event \<Rightarrow> world \<Rightarrow> world" where
  "add_event e w = w\<lparr>log := log w @ [e]\<rparr>"

text \<open>\<open>tempfile.NamedTemporaryFile(suffix=..., delete=False)\<close>: the file stays.\<close>

definition named_temporary_file :: "asr_env \<Rightarrow> string \<Rightarrow> world \<Rightarrow> string \<times> world" where
  "named_temporary_file env sfx w =
     (let path = mktemp env (files w) sfx
      in (path, add_event (TempFile path) (w\<lparr>files := insert path (files w)\<rparr>)))"

text \<open>\<open>os.remove\<close> of an existing path.\<close>

definition os_remove :: "string \<Rightarrow> world \<Rightarrow> world" where
  "os_remove path w = add_event (Removed path) (w\<lparr>files := files w - {path}\<rparr>)"

text \<open>The two ffmpeg command lines.\<close>

definition convert_cmd :: "ChineseSpeechRecognizer \<Rightarrow> string \<Rightarrow> string \<Rightarrow> string list" where
  "convert_cmd r input_path output_path =
     [''ffmpeg'', ''-i'', input_path,
      ''-ar'', str_int (sample_rate (config r)),
      ''-ac'', str_int (channels (config r)),
      ''-y'', output_path]"

definition dingtalk_cmd :: "string \<Rightarrow> string \<Rightarrow> string list" where
  "dingtalk_cmd ogg_path wav_path =
     [''ffmpeg'', ''-i'', ogg_path, ''-ar'', ''16000'', ''-ac'', ''1'',
      ''-acodec'', ''pcm_s16le'', ''-y'', wav_path]"

text \<open>
  \<open>convert_audio_format\<close>.  Both \<open>except\<close> clauses return the input path, so on the two
  outcomes of \<open>proc\<close> the function does not raise.
\<close>

definition convert_audio_format ::
  "asr_env \<Rightarrow> ChineseSpeechRecognizer \<Rightarrow> string \<Rightarrow> string \<Rightarrow> world \<Rightarrow> (error + string) \<times> world" where
  "convert_audio_format env r input_path output_format w =
     (if (suffix_lower env input_path = ''.wav'' \<or> suffix_lower env input_path = ''.flac'')
         \<and> \<not> auto_convert_formats (config r)
      then (Inr input_path, w)
      else
        (let (output_path, w1) = named_temporary_file env (''.'' @ output_format) w;
             cmd = convert_cmd r input_path output_path;
             w2 = add_event (Ffmpeg cmd) w1
         in case run env cmd (files w1) of
              Exited rc fs \<Rightarrow>
                (if rc = 0 then (Inr output_path, w2\<lparr>files := fs\<rparr>)
                 else (Inr input_path, w2\<lparr>files := fs\<rparr>))
            | NotFound msg \<Rightarrow> (Inr input_path, w2)))"

text \<open>
  \<open>recognize_with_google\<close>: every exception of the engine is turned into a result.  The
  clock advances by the time the engine takes.
\<close>

definition recognize_with_google ::
  "asr_env \<Rightarrow> ChineseSpeechRecognizer \<Rightarrow> string \<Rightarrow> world \<Rightarrow> RecognitionResult \<times> world" where
  "recognize_with_google env r audio_path w =
     (let start_time = now w;
          (outcome, seconds) = google_engine env audio_path (files w);
          w1 = add_event (GoogleCall audio_path) (w\<lparr>now := now w + seconds\<rparr>);
          t = now w1 - start_time
      in case outcome of
           Recognized txt \<Rightarrow>
             (\<lparr> res_text = txt, confidence = 9 / 10, mode = GOOGLE, processing_time = t,
                language = cfg_language (config r), error = None \<rparr>, w1)
         | UnknownValueError \<Rightarrow> (failure (config r) GOOGLE t msg_unrecognized, w1)
         | RequestError e \<Rightarrow> (failure (config r) GOOGLE t (msg_google_request @ e), w1)
         | OtherError e \<Rightarrow> (failure (config r) GOOGLE t (msg_recognize_error @ e), w1))"

text \<open>
  \<open>recognize_with_vosk\<close>: without a loaded model the engine is not run; otherwise the
  \<open>try\<close> block (reading the wave file and feeding the Kaldi recognizer) is the engine.
\<close>

definition recognize_with_vosk ::
  "asr_env \<Rightarrow> ChineseSpeechRecognizer \<Rightarrow> string \<Rightarrow> world \<Rightarrow> RecognitionResult \<times> world" where
  "recognize_with_vosk env r audio_path w =
     (let start_time = now w;
          w0 = add_event (VoskCall audio_path) w
      in if \<not> vosk_model r
         then (failure (config r) VOSK (now w0 - start_time) msg_vosk_unloaded, w0)
         else
           (let (outcome, seconds) = vosk_engine env audio_path (files w0);
                w1 = w0\<lparr>now := now w0 + seconds\<rparr>;
                t = now w1 - start_time
            in case outcome of
                 Transcribed txt \<Rightarrow>
                   (\<lparr> res_text = txt, confidence = 8 / 10, mode = VOSK, processing_time = t,
                      language = cfg_language (config r), error = None \<rparr>, w1)
               | ImportError \<Rightarrow> (failure (config r) VOSK t msg_vosk_missing, w1)
               | VoskError e \<Rightarrow> (failure (config r) VOSK t (msg_vosk_failed @ e), w1)))"

text \<open>
  \<open>recognize_audio\<close>.  The three modes are all the modes there are, and both engine
  methods return a result on every path, so the final \<open>else\<close> and the \<open>except\<close> clause
  have no counterpart here.
\<close>

definition recognize_audio ::
  "asr_env \<Rightarrow> ChineseSpeechRecognizer \<Rightarrow> string \<Rightarrow> world \<Rightarrow> RecognitionResult \<times> world" where
  "recognize_audio env r audio_path w =
     (if audio_path \<notin> files w
      then (failure (config r) (cfg_mode (config r)) 0 (msg_file_missing @ audio_path), w)
      else
        (let (converted, w1) =
               (if auto_convert_formats (config r)
                then convert_audio_format env r audio_path ''wav'' w
                else (Inr audio_path, w));
             converted_path = (case converted of Inr p \<Rightarrow> p | Inl e \<Rightarrow> audio_path);
             is_temp = (auto_convert_formats (config r) \<and> converted_path \<noteq> audio_path);
             (result, w2) =
               (case cfg_mode (config r) of
                  GOOGLE \<Rightarrow> recognize_with_google env r converted_path w1
                | VOSK \<Rightarrow> recognize_with_vosk env r converted_path w1
                | HYBRID \<Rightarrow>
                    (let (google_result, wg) = recognize_with_google env r converted_path w1
                     in if truthy (error google_result) \<or> res_text google_result = []
                        then (let (vosk_result, wv) = recognize_with_vosk env r converted_path wg
                              in (vosk_result\<lparr>mode := HYBRID\<rparr>, wv))
                        else (google_result\<lparr>mode := HYBRID\<rparr>, wg)));
             w3 = (if is_temp \<and> converted_path \<in> files w2
                   then os_remove converted_path w2 else w2)
         in (result, w3)))"

text \<open>\<open>recognize_dingtalk_voice\<close>.\<close>

definition recognize_dingtalk_voice ::
  "asr_env \<Rightarrow> ChineseSpeechRecognizer \<Rightarrow> string \<Rightarrow> world
     \<Rightarrow> (error + RecognitionResult) \<times> world" where
  "recognize_dingtalk_voice env r ogg_path w =
     (let (wav_path, w1) = named_temporary_file env ''.wav'' w;
          cmd = dingtalk_cmd ogg_path wav_path;
          w2 = add_event (Ffmpeg cmd) w1
      in case run env cmd (files w1) of
           Exited rc fs \<Rightarrow>
             (if rc = 0
              then (let (result, w3) = recognize_audio env r wav_path (w2\<lparr>files := fs\<rparr>)
                    in if wav_path \<in> files w3
                       then (Inr result, os_remove wav_path w3)
                       else (Inr (failure (config r) (cfg_mode (config r)) 0
                                    (msg_dingtalk_failed @ remove_error env wav_path)), w3))
              else (let (result, w3) = recognize_audio env r ogg_path (w2\<lparr>files := fs\<rparr>)
                    in (Inr result, w3)))
         | NotFound msg \<Rightarrow>
             (Inr (failure (config r) (cfg_mode (config r)) 0 (msg_dingtalk_failed @ msg)),
              if wav_path \<in> files w2 then os_remove wav_path w2 else w2))"

section \<open>Notions used to state the properties\<close>

definition field :: "json \<Rightarrow> string \<Rightarrow> json option" where
  "field j key = (case j of JObj kvs \<Rightarrow> map_of kvs key | _ \<Rightarrow> None)"

definition is_obj :: "json \<Rightarrow> bool" where
  "is_obj j = (case j of JObj kvs \<Rightarrow> True | _ \<Rightarrow> False)"

definition words_or_empty :: "json \<Rightarrow> json" where
  "words_or_empty item = (case field item ''words'' of None \<Rightarrow> JStr [] | Some w \<Rightarrow> w)"

text \<open>An error carries a value when its message interpolates it.\<close>

definition carries :: "error \<Rightarrow> json \<Rightarrow> bool" where
  "carries e v = (case e of ValueError parts \<Rightarrow> List.member parts (FmtJson v) | _ \<Rightarrow> False)"

definition is_vosk_call :: "event \<Rightarrow> bool" where
  "is_vosk_call e = (case e of VoskCall p \<Rightarrow> True | _ \<Rightarrow> False)"

subsection \<open>Concrete inputs\<close>

text \<open>
  A client whose cache holds the token \<open>T1\<close> for the scope \<open>ocr\<close>, recorded to expire at
  time 3400, and a token endpoint that answers every request with a fresh token \<open>T2\<close>.
\<close>

definition cached_client :: BaiduAIClient where
  "cached_client =
     \<lparr> api_key = Some ''key'', secret_key = Some ''secret'', proxy = None,
       cache_tokens = True,
       tokens = [''ocr'' \<mapsto> JStr ''T1''],
       token_expiry = [''ocr'' \<mapsto> 3400],
       endpoints = [TTS \<mapsto> ''https://tsn.baidubce.com/text2audio''] \<rparr>"

definition token_endpoint :: network where
  "token_endpoint req =
     Inr \<lparr> status_code = 200, resp_text = [],
           resp_json = Some (JObj [(''access_token'', JStr ''T2''), (''expires_in'', JNum 3600)]) \<rparr>"

text \<open>The words of the OCR scenario, as UTF-8.\<close>

definition ni_hao :: string where
  "ni_hao = [CHR 0xE4, CHR 0xBD, CHR 0xA0, CHR 0xE5, CHR 0xA5, CHR 0xBD]"

definition shi_jie :: string where
  "shi_jie = [CHR 0xE4, CHR 0xB8, CHR 0x96, CHR 0xE7, CHR 0x95, CHR 0x8C]"

text \<open>The token endpoint's error envelope, answered with status 200.\<close>

definition token_error_response :: http_response where
  "token_error_response =
     \<lparr> status_code = 200, resp_text = [],
       resp_json = Some (JObj [(''error'', JStr ''invalid_client''),
                               (''error_description'', JStr ''unknown client id'')]) \<rparr>"

text \<open>A DingTalk endpoint that accepts everything, and an environment naming a robot.\<close>

definition accepting :: network where
  "accepting req = Inr \<lparr> status_code = 200, resp_text = [], resp_json = Some (JObj []) \<rparr>"

definition env_robot :: "string \<Rightarrow> (string \<rightharpoonup> string)" where
  "env_robot code = [''DINGTALK_ACCESS_TOKEN'' \<mapsto> ''token0'', ''DINGTALK_ROBOT_CODE'' \<mapsto> code]"

text \<open>
  The recognizer with the default \<open>ASRConfig\<close> and no Vosk model, a world holding one voice
  file, and three environments: ffmpeg is missing, ffmpeg exits with code 1, ffmpeg
  succeeds.  In all three the cloud engine cannot be reached.
\<close>

definition default_config :: ASRConfig where
  "default_config =
     \<lparr> cfg_mode = HYBRID, cfg_language = ''zh-CN'', cfg_proxy = None, vosk_model_path = None,
       google_api_key = None, auto_convert_formats = True, sample_rate = 16000, channels = 1 \<rparr>"

definition default_recognizer :: ChineseSpeechRecognizer where
  "default_recognizer = \<lparr> config = default_config, vosk_model = False \<rparr>"

definition fresh_tmp :: "string set \<Rightarrow> string \<Rightarrow> string" where
  "fresh_tmp fs sfx =
     (if ''/tmp/tmp0'' @ sfx \<in> fs then ''/tmp/tmp1'' @ sfx else ''/tmp/tmp0'' @ sfx)"

definition no_ffmpeg :: asr_env where
  "no_ffmpeg =
     \<lparr> mktemp = fresh_tmp,
       run = (\<lambda>cmd fs. NotFound ''ffmpeg''),
       google_engine = (\<lambda>p fs. (RequestError ''unreachable'', 1)),
       vosk_engine = (\<lambda>p fs. (Transcribed [], 1)),
       suffix_lower = (\<lambda>p. ''.ogg''),
       remove_error = (\<lambda>p. ''No such file or directory'') \<rparr>"

definition failing_ffmpeg :: asr_env where
  "failing_ffmpeg = no_ffmpeg\<lparr> run := (\<lambda>cmd fs. Exited 1 fs) \<rparr>"

definition working_ffmpeg :: asr_env where
  "working_ffmpeg = no_ffmpeg\<lparr> run := (\<lambda>cmd fs. Exited 0 fs) \<rparr>"

definition voice_world :: world where
  "voice_world = \<lparr> files = {''voice.ogg''}, now = 0, log = [] \<rparr>"

section \<open>Properties of the Baidu AI client\<close>

lemma getattr_TOKEN: "BaiduAIService_getattr ''TOKEN'' = Inl (AttributeError ''TOKEN'')"
  by (simp add: BaiduAIService_getattr_def)

text \<open>
  The enumeration has no member \<open>OCR_GENERAL\<close>, so the constructor raises while it builds
  the endpoint table.
\<close>

lemma BaiduAIClient_init_fails:
  "BaiduAIClient_init env key secret prx cache = Inl (AttributeError ''OCR_GENERAL'')"
  by (simp add: BaiduAIClient_init_def endpoint_table_def BaiduAIService_getattr_def)

text \<open>Without a cache hit the call raises on line 136, before any request is sent.\<close>

lemma get_access_token_miss:
  "\<not> cache_hit c (cache_key service) t_check \<Longrightarrow>
   get_access_token net t_check t_store service c = (Inl (AttributeError ''TOKEN''), c, [])"
  by (simp add: get_access_token_def getattr_TOKEN)

lemma get_access_token_hit:
  "cache_hit c (cache_key service) t_check \<Longrightarrow>
   get_access_token net t_check t_store service c =
     (Inr (the (tokens c (cache_key service))), c, [])"
  by (auto simp add: get_access_token_def cache_hit_def split: option.splits)

text \<open>
  What lines 146-154 do with a well-formed answer of the token endpoint, were they reached:
  the token is stored under the cache key with the expiry \<open>now + expires_in - 300\<close>.
\<close>

lemma token_response_records_expiry:
  assumes "status_code resp = 200" and "resp_json resp = Some (JObj kvs)"
    and "map_of kvs ''error'' = None"
    and "map_of kvs ''access_token'' = Some tok"
    and "map_of kvs ''expires_in'' = Some (JNum ttl)"
    and "cache_tokens c"
  shows "token_response t k resp c
           = (Inr tok, c\<lparr>tokens := (tokens c)(k \<mapsto> tok),
                         token_expiry := (token_expiry c)(k \<mapsto> t + real_of_int ttl - 300)\<rparr>)"
  using assms by (simp add: token_response_def)

text \<open>A token stored that way is served from the cache until its recorded expiry.\<close>

lemma stored_token_served:
  assumes "status_code resp = 200" and "resp_json resp = Some (JObj kvs)"
    and "map_of kvs ''error'' = None"
    and "map_of kvs ''access_token'' = Some tok"
    and "map_of kvs ''expires_in'' = Some (JNum ttl)"
    and "cache_tokens c"
    and "t2 < t + real_of_int ttl - 300"
    and "c' = snd (token_response t (cache_key service) resp c)"
  shows "get_access_token net t2 t2' service c' = (Inr tok, c', [])"
proof -
  have "cache_hit c' (cache_key service) t2" and "tokens c' (cache_key service) = Some tok"
    using assms by (simp_all add: token_response_records_expiry [OF assms(1-6)] cache_hit_def)
  then show ?thesis by (simp add: get_access_token_hit)
qed

text \<open>
  Claim C1.  Take two calls of \<open>get_access_token\<close> for the same service scope, the second
  on the client as the first call left it.  If caching is enabled and the second call
  reads a time strictly below the expiry recorded for the scope, the second call sends no
  request (whatever the network would answer), leaves the client unchanged, and returns the
  very token the first call returned.
\<close>

theorem cached_token_reused:
  assumes "get_access_token net t1 t1' service c = (Inr tok1, c1, reqs1)"
    and "cache_tokens c1"
    and "token_expiry c1 (cache_key service) = Some expiry"
    and "t2 < expiry"
  shows "get_access_token net2 t2 t2' service c1 = (Inr tok1, c1, [])"
proof (cases "cache_hit c (cache_key service) t1")
  case False
  with assms(1) show ?thesis by (simp add: get_access_token_miss)
next
  case True
  with assms(1) have c1: "c1 = c" and tok: "tokens c (cache_key service) = Some tok1"
    by (auto simp add: get_access_token_def cache_hit_def split: option.splits)
  with assms(2-4) have "cache_hit c1 (cache_key service) t2"
    by (simp add: cache_hit_def)
  then show ?thesis using tok c1 by (simp add: get_access_token_hit)
qed

theorem cached_token_reused_witness:
  "get_access_token token_endpoint 100 100 (Some OCR) cached_client
     = (Inr (JStr ''T1''), cached_client, [])
   \<and> cache_tokens cached_client
   \<and> token_expiry cached_client (cache_key (Some OCR)) = Some 3400
   \<and> (200::real) < 3400
   \<and> get_access_token token_endpoint 200 200 (Some OCR) cached_client
     = (Inr (JStr ''T1''), cached_client, [])"
proof -
  have first: "get_access_token token_endpoint 100 100 (Some OCR) cached_client
                 = (Inr (JStr ''T1''), cached_client, [])"
    by (simp add: get_access_token_def cache_hit_def cache_key_def cached_client_def Let_def)
  have flag: "cache_tokens cached_client"
    by (simp add: cached_client_def)
  have expiry: "token_expiry cached_client (cache_key (Some OCR)) = Some 3400"
    by (simp add: cache_key_def cached_client_def)
  have before: "(200::real) < 3400" by simp
  from cached_token_reused [OF first flag expiry before, of token_endpoint 200]
  show ?thesis using first flag expiry by simp
qed

text \<open>
  Claim C2 asks for a fresh token exchange once the recorded expiry has passed.  The cached
  entry of \<open>cached_client\<close> expired at time 3400.  A call at time 5000 does not reach the
  token endpoint: it raises \<open>AttributeError\<close> for the member \<open>TOKEN\<close>, sends no request and
  leaves the stale entry in place.  The constructor fails in the same way, on the member
  \<open>OCR_GENERAL\<close>.
\<close>

theorem expired_token_not_refreshed:
  "get_access_token token_endpoint 5000 5000 (Some OCR) cached_client
     = (Inl (AttributeError ''TOKEN''), cached_client, [])
   \<and> BaiduAIClient_init Map.empty (Some ''key'') (Some ''secret'') None True
     = Inl (AttributeError ''OCR_GENERAL'')"
  by (simp add: get_access_token_def getattr_TOKEN cache_hit_def cache_key_def cached_client_def
        Let_def BaiduAIClient_init_fails)

text \<open>The OCR calls stop at the endpoint lookup as well, even with a cached token.\<close>

lemma ocr_general_raises:
  "\<exists>e. fst (ocr_general net b64encode t_check t_store ocr_config c) = Inl e"
  by (simp add: ocr_general_def ocr_call_def BaiduAIService_getattr_def Let_def
        split: prod.splits sum.splits)

text \<open>
  Claim C3, as the code has it.  An operation envelope \<open>{error_code, error_msg}\<close> makes the
  extractor raise \<open>ValueError\<close> with a message that interpolates the code and the message
  (the default text when \<open>error_msg\<close> is absent).  A token envelope
  \<open>{error, error_description}\<close> makes the token handler raise \<open>ValueError\<close> with a message
  that interpolates the description only; the client is left unchanged.
\<close>

theorem error_envelope_surfaced:
  "(map_of kvs ''error_code'' = Some code \<longrightarrow>
      extract_words prefix (JObj kvs)
        = Inl (ValueError [Lit prefix, FmtJson code, Lit '': '',
                           FmtJson (case map_of kvs ''error_msg'' of
                                      None \<Rightarrow> JStr msg_unknown_error | Some m \<Rightarrow> m)]))
   \<and> (status_code resp = 200 \<and> resp_json resp = Some (JObj kvs)
        \<and> map_of kvs ''error'' = Some code \<longrightarrow>
      token_response t k resp c
        = (Inl (ValueError [Lit msg_baidu_error,
                            FmtJson (case map_of kvs ''error_description'' of
                                       None \<Rightarrow> JStr msg_unknown_error | Some d \<Rightarrow> d)]), c))"
  by (auto simp add: extract_words_def token_response_def split: option.splits)

theorem error_envelope_surfaced_witness:
  "extract_words msg_ocr_error
      (JObj [(''error_code'', JNum 110), (''error_msg'', JStr ''Access token invalid'')])
     = Inl (ValueError [Lit msg_ocr_error, FmtJson (JNum 110), Lit '': '',
                        FmtJson (JStr ''Access token invalid'')])
   \<and> token_response 0 ''ocr'' token_error_response cached_client
     = (Inl (ValueError [Lit msg_baidu_error, FmtJson (JStr ''unknown client id'')]),
        cached_client)"
proof -
  have ocr: "map_of [(''error_code'', JNum 110), (''error_msg'', JStr ''Access token invalid'')]
               ''error_code'' = Some (JNum 110)"
    by simp
  have tok: "status_code token_error_response = 200
             \<and> resp_json token_error_response
                 = Some (JObj [(''error'', JStr ''invalid_client''),
                               (''error_description'', JStr ''unknown client id'')])
             \<and> map_of [(''error'', JStr ''invalid_client''),
                        (''error_description'', JStr ''unknown client id'')] ''error''
                 = Some (JStr ''invalid_client'')"
    by (simp add: token_error_response_def)
  from error_envelope_surfaced
         [of "[(''error_code'', JNum 110), (''error_msg'', JStr ''Access token invalid'')]"
             "JNum 110" msg_ocr_error]
       ocr
  have first: "extract_words msg_ocr_error
                 (JObj [(''error_code'', JNum 110), (''error_msg'', JStr ''Access token invalid'')])
               = Inl (ValueError [Lit msg_ocr_error, FmtJson (JNum 110), Lit '': '',
                                  FmtJson (JStr ''Access token invalid'')])"
    by simp
  from error_envelope_surfaced
         [of "[(''error'', JStr ''invalid_client''),
               (''error_description'', JStr ''unknown client id'')]"
             "JStr ''invalid_client''" _ token_error_response 0 "''ocr''" cached_client]
       tok
  have second: "token_response 0 ''ocr'' token_error_response cached_client
                = (Inl (ValueError [Lit msg_baidu_error, FmtJson (JStr ''unknown client id'')]),
                   cached_client)"
    by simp
  from first second show ?thesis by simp
qed

text \<open>
  The failure raised for the token envelope does not carry the error code
  \<open>invalid_client\<close>; it carries the description.
\<close>

theorem token_error_drops_code:
  "fst (token_response 0 ''ocr'' token_error_response cached_client)
     = Inl (ValueError [Lit msg_baidu_error, FmtJson (JStr ''unknown client id'')])
   \<and> \<not> carries (ValueError [Lit msg_baidu_error, FmtJson (JStr ''unknown client id'')])
          (JStr ''invalid_client'')
   \<and> carries (ValueError [Lit msg_baidu_error, FmtJson (JStr ''unknown client id'')])
        (JStr ''unknown client id'')"
  by (simp add: token_response_def token_error_response_def carries_def)

subsection \<open>The result extractor\<close>

lemma words_loop_objs:
  "\<forall>item \<in> set items. is_obj item \<Longrightarrow>
   words_loop acc items = Inr (acc @ map words_or_empty items)"
proof (induction items arbitrary: acc)
  case Nil
  then show ?case by simp
next
  case (Cons item items)
  then obtain kvs where "item = JObj kvs" by (cases item) (auto simp: is_obj_def)
  with Cons show ?case
    by (auto simp: words_or_empty_def field_def split: option.splits)
qed

lemma field_is_obj: "field item key \<noteq> None \<Longrightarrow> is_obj item"
  by (cases item) (auto simp: field_def is_obj_def)

lemma extract_words_objs:
  assumes "map_of kvs ''error_code'' = None"
    and "map_of kvs ''words_result'' = Some (JArr items)"
    and "\<forall>item \<in> set items. is_obj item"
  shows "extract_words prefix (JObj kvs) = Inr (map words_or_empty items)"
  using assms by (simp add: extract_words_def words_loop_objs)

text \<open>
  Claim C8.  For a payload without \<open>error_code\<close> whose \<open>words_result\<close> is an array of
  objects that each have a \<open>words\<close> field, the extractor returns the \<open>words\<close> fields of the
  elements, in the order of the array.  The payload of the scenario yields the two words in
  their order.
\<close>

theorem words_extracted_in_order:
  "(map_of kvs ''error_code'' = None \<and> map_of kvs ''words_result'' = Some (JArr items)
      \<and> (\<forall>item \<in> set items. field item ''words'' \<noteq> None)
    \<longrightarrow> extract_words prefix (JObj kvs) = Inr (map (\<lambda>item. the (field item ''words'')) items))
   \<and> extract_words prefix
        (JObj [(''words_result'', JArr [JObj [(''words'', JStr ni_hao)],
                                        JObj [(''words'', JStr shi_jie)]])])
       = Inr [JStr ni_hao, JStr shi_jie]"
proof -
  have general: "extract_words prefix (JObj kvs) = Inr (map (\<lambda>item. the (field item ''words'')) items)"
    if a: "map_of kvs ''error_code'' = None" "map_of kvs ''words_result'' = Some (JArr items)"
      and b: "\<forall>item \<in> set items. field item ''words'' \<noteq> None"
  proof -
    from b have objs: "\<forall>item \<in> set items. is_obj item" by (blast intro: field_is_obj)
    from b have "map words_or_empty items = map (\<lambda>item. the (field item ''words'')) items"
      by (auto simp: words_or_empty_def)
    with extract_words_objs [OF a objs] show ?thesis by simp
  qed
  have scenario: "extract_words prefix
        (JObj [(''words_result'', JArr [JObj [(''words'', JStr ni_hao)],
                                        JObj [(''words'', JStr shi_jie)]])])
       = Inr [JStr ni_hao, JStr shi_jie]"
    by (simp add: extract_words_def)
  from general scenario show ?thesis by blast
qed

theorem words_extracted_in_order_witness:
  "extract_words msg_ocr_error
     (JObj [(''log_id'', JNum 7), (''words_result'', JArr [JObj [(''words'', JStr ''abc'')],
                                                            JObj [(''words'', JStr ''de'')],
                                                            JObj [(''words'', JStr ''abc'')]])])
   = Inr [JStr ''abc'', JStr ''de'', JStr ''abc'']"
proof -
  let ?items = "[JObj [(''words'', JStr ''abc'')], JObj [(''words'', JStr ''de'')],
                 JObj [(''words'', JStr ''abc'')]]"
  let ?kvs = "[(''log_id'', JNum 7), (''words_result'', JArr ?items)]"
  have hyp: "map_of ?kvs ''error_code'' = None \<and> map_of ?kvs ''words_result'' = Some (JArr ?items)
             \<and> (\<forall>item \<in> set ?items. field item ''words'' \<noteq> None)"
    by (simp add: field_def)
  from words_extracted_in_order [of ?kvs ?items msg_ocr_error] hyp
  have "extract_words msg_ocr_error (JObj ?kvs)
          = Inr (map (\<lambda>item. the (field item ''words'')) ?items)"
    by blast
  then show ?thesis by (simp add: field_def)
qed

text \<open>
  The extractor is not total on JSON objects without \<open>error_code\<close>: a \<open>words_result\<close> that
  is \<open>null\<close> cannot be iterated, and an element that is not an object has no \<open>get\<close>.
\<close>

theorem extract_words_raises:
  "extract_words msg_ocr_error (JObj [(''words_result'', JNull)]) = Inl TypeError
   \<and> extract_words msg_ocr_error (JObj [(''words_result'', JArr [JNum 1])])
       = Inl (AttributeError ''get'')"
  by (simp add: extract_words_def)

lemma words_loop_non_obj:
  "\<exists>item \<in> set items. \<not> is_obj item \<Longrightarrow>
   words_loop acc items = Inl (AttributeError ''get'')"
proof (induction items arbitrary: acc)
  case Nil
  then show ?case by simp
next
  case (Cons item items)
  show ?case
  proof (cases item)
    case (JObj fs)
    with Cons.prems have "\<exists>x \<in> set items. \<not> is_obj x" by (simp add: is_obj_def)
    with Cons.IH JObj show ?thesis by (simp split: option.splits)
  qed simp_all
qed

lemma words_loop_chars:
  "words_loop [] (map (\<lambda>c. JStr [c]) chars)
     = (if chars = [] then Inr [] else Inl (AttributeError ''get''))"
  by (cases chars) simp_all

lemma words_loop_keys:
  "words_loop [] (map (\<lambda>kv. JStr (fst kv)) members)
     = (if members = [] then Inr [] else Inl (AttributeError ''get''))"
  by (cases members) simp_all

text \<open>
  Claim C10, as the code has it.  On a JSON object without \<open>error_code\<close> the extractor
  behaves as follows.  With no \<open>words_result\<close> it returns the empty list.  With a
  \<open>words_result\<close> that is an array of objects it returns one entry per element, in order,
  the \<open>words\<close> field of the element or the empty string when the element has none.  With a
  \<open>words_result\<close> that is \<open>null\<close>, a boolean or a number it raises \<open>TypeError\<close>.  With an
  array holding an element that is not an object it raises \<open>AttributeError\<close>.  With a
  string or an object as \<open>words_result\<close> it returns the empty list when that value is empty
  and raises \<open>AttributeError\<close> otherwise.
\<close>

theorem extract_words_characterised:
  "(map_of kvs ''error_code'' = None \<and> map_of kvs ''words_result'' = None
      \<longrightarrow> extract_words prefix (JObj kvs) = Inr [])
   \<and> (map_of kvs ''error_code'' = None \<and> map_of kvs ''words_result'' = Some (JArr items)
        \<and> (\<forall>item \<in> set items. is_obj item)
      \<longrightarrow> extract_words prefix (JObj kvs) = Inr (map words_or_empty items)
          \<and> length (map words_or_empty items) = length items)
   \<and> (map_of kvs ''error_code'' = None
        \<and> (map_of kvs ''words_result'' = Some JNull
            \<or> map_of kvs ''words_result'' = Some (JBool b)
            \<or> map_of kvs ''words_result'' = Some (JNum n))
      \<longrightarrow> extract_words prefix (JObj kvs) = Inl TypeError)
   \<and> (map_of kvs ''error_code'' = None \<and> map_of kvs ''words_result'' = Some (JArr items)
        \<and> (\<exists>item \<in> set items. \<not> is_obj item)
      \<longrightarrow> extract_words prefix (JObj kvs) = Inl (AttributeError ''get''))
   \<and> (map_of kvs ''error_code'' = None \<and> map_of kvs ''words_result'' = Some (JStr chars)
      \<longrightarrow> extract_words prefix (JObj kvs)
            = (if chars = [] then Inr [] else Inl (AttributeError ''get'')))
   \<and> (map_of kvs ''error_code'' = None \<and> map_of kvs ''words_result'' = Some (JObj members)
      \<longrightarrow> extract_words prefix (JObj kvs)
            = (if members = [] then Inr [] else Inl (AttributeError ''get'')))"
proof -
  have absent: "extract_words prefix (JObj kvs) = Inr []"
    if "map_of kvs ''error_code'' = None" "map_of kvs ''words_result'' = None"
    using that by (simp add: extract_words_def)
  have objs: "extract_words prefix (JObj kvs) = Inr (map words_or_empty items)"
    if "map_of kvs ''error_code'' = None" "map_of kvs ''words_result'' = Some (JArr items)"
       "\<forall>item \<in> set items. is_obj item"
    using that by (rule extract_words_objs)
  have scalar: "extract_words prefix (JObj kvs) = Inl TypeError"
    if "map_of kvs ''error_code'' = None"
       "map_of kvs ''words_result'' = Some JNull
        \<or> map_of kvs ''words_result'' = Some (JBool b)
        \<or> map_of kvs ''words_result'' = Some (JNum n)"
    using that by (auto simp add: extract_words_def)
  have non_obj: "extract_words prefix (JObj kvs) = Inl (AttributeError ''get'')"
    if "map_of kvs ''error_code'' = None" "map_of kvs ''words_result'' = Some (JArr items)"
       "\<exists>item \<in> set items. \<not> is_obj item"
    using that by (simp add: extract_words_def words_loop_non_obj)
  have string: "extract_words prefix (JObj kvs)
                  = (if chars = [] then Inr [] else Inl (AttributeError ''get''))"
    if "map_of kvs ''error_code'' = None" "map_of kvs ''words_result'' = Some (JStr chars)"
    using that by (simp add: extract_words_def words_loop_chars)
  have object: "extract_words prefix (JObj kvs)
                  = (if members = [] then Inr [] else Inl (AttributeError ''get''))"
    if "map_of kvs ''error_code'' = None" "map_of kvs ''words_result'' = Some (JObj members)"
    using that by (simp add: extract_words_def words_loop_keys)
  show ?thesis
  proof (intro conjI impI)
    assume "map_of kvs ''error_code'' = None \<and> map_of kvs ''words_result'' = None"
    then show "extract_words prefix (JObj kvs) = Inr []" using absent by blast
  next
    assume "map_of kvs ''error_code'' = None \<and> map_of kvs ''words_result'' = Some (JArr items)
            \<and> (\<forall>item \<in> set items. is_obj item)"
    then show "extract_words prefix (JObj kvs) = Inr (map words_or_empty items)"
      using objs by blast
  next
    show "length (map words_or_empty items) = length items" by simp
  next
    assume "map_of kvs ''error_code'' = None
            \<and> (map_of kvs ''words_result'' = Some JNull
                \<or> map_of kvs ''words_result'' = Some (JBool b)
                \<or> map_of kvs ''words_result'' = Some (JNum n))"
    then show "extract_words prefix (JObj kvs) = Inl TypeError" using scalar by blast
  next
    assume "map_of kvs ''error_code'' = None \<and> map_of kvs ''words_result'' = Some (JArr items)
            \<and> (\<exists>item \<in> set items. \<not> is_obj item)"
    then show "extract_words prefix (JObj kvs) = Inl (AttributeError ''get'')"
      using non_obj by blast
  next
    assume "map_of kvs ''error_code'' = None \<and> map_of kvs ''words_result'' = Some (JStr chars)"
    then show "extract_words prefix (JObj kvs)
                 = (if chars = [] then Inr [] else Inl (AttributeError ''get''))"
      using string by blast
  next
    assume "map_of kvs ''error_code'' = None \<and> map_of kvs ''words_result'' = Some (JObj members)"
    then show "extract_words prefix (JObj kvs)
                 = (if members = [] then Inr [] else Inl (AttributeError ''get''))"
      using object by blast
  qed
qed

theorem extract_words_characterised_witness:
  "extract_words msg_ocr_accurate_error (JObj [(''log_id'', JNum 7)]) = Inr []
   \<and> extract_words msg_ocr_accurate_error
       (JObj [(''words_result'', JArr [JObj [(''words'', JStr ''abc'')], JObj []])])
     = Inr [JStr ''abc'', JStr []]
   \<and> extract_words msg_ocr_accurate_error (JObj [(''words_result'', JBool False)])
     = Inl TypeError
   \<and> extract_words msg_ocr_accurate_error
       (JObj [(''words_result'', JArr [JObj [(''words'', JStr ''abc'')], JStr ''de''])])
     = Inl (AttributeError ''get'')
   \<and> extract_words msg_ocr_accurate_error (JObj [(''words_result'', JStr [])]) = Inr []
   \<and> extract_words msg_ocr_accurate_error (JObj [(''words_result'', JObj [(''k'', JNull)])])
     = Inl (AttributeError ''get'')"
proof -
  let ?items = "[JObj [(''words'', JStr ''abc'')], JObj []]"
  let ?mixed = "[JObj [(''words'', JStr ''abc'')], JStr ''de'']"
  have none: "map_of [(''log_id'', JNum 7)] ''error_code'' = None
              \<and> map_of [(''log_id'', JNum 7)] ''words_result'' = None"
    by simp
  have some: "map_of [(''words_result'', JArr ?items)] ''error_code'' = None
              \<and> map_of [(''words_result'', JArr ?items)] ''words_result'' = Some (JArr ?items)
              \<and> (\<forall>item \<in> set ?items. is_obj item)"
    by (simp add: is_obj_def)
  have scalar: "map_of [(''words_result'', JBool False)] ''error_code'' = None
                \<and> (map_of [(''words_result'', JBool False)] ''words_result'' = Some JNull
                    \<or> map_of [(''words_result'', JBool False)] ''words_result''
                        = Some (JBool False)
                    \<or> map_of [(''words_result'', JBool False)] ''words_result''
                        = Some (JNum 0))"
    by simp
  have mixed: "map_of [(''words_result'', JArr ?mixed)] ''error_code'' = None
               \<and> map_of [(''words_result'', JArr ?mixed)] ''words_result'' = Some (JArr ?mixed)
               \<and> (\<exists>item \<in> set ?mixed. \<not> is_obj item)"
    by (simp add: is_obj_def)
  have empty_string: "map_of [(''words_result'', JStr [])] ''error_code'' = None
                      \<and> map_of [(''words_result'', JStr [])] ''words_result'' = Some (JStr [])"
    by simp
  have keyed: "map_of [(''words_result'', JObj [(''k'', JNull)])] ''error_code'' = None
               \<and> map_of [(''words_result'', JObj [(''k'', JNull)])] ''words_result''
                   = Some (JObj [(''k'', JNull)])"
    by simp
  from extract_words_characterised
         [where kvs = "[(''log_id'', JNum 7)]" and prefix = msg_ocr_accurate_error] none
  have first: "extract_words msg_ocr_accurate_error (JObj [(''log_id'', JNum 7)]) = Inr []"
    by blast
  from extract_words_characterised
         [where kvs = "[(''words_result'', JArr ?items)]" and prefix = msg_ocr_accurate_error
            and items = ?items] some
  have "extract_words msg_ocr_accurate_error (JObj [(''words_result'', JArr ?items)])
          = Inr (map words_or_empty ?items)"
    by blast
  then have second: "extract_words msg_ocr_accurate_error (JObj [(''words_result'', JArr ?items)])
                       = Inr [JStr ''abc'', JStr []]"
    by (simp add: words_or_empty_def field_def)
  from extract_words_characterised
         [where kvs = "[(''words_result'', JBool False)]" and prefix = msg_ocr_accurate_error
            and b = False and n = 0] scalar
  have third: "extract_words msg_ocr_accurate_error (JObj [(''words_result'', JBool False)])
                 = Inl TypeError"
    by blast
  from extract_words_characterised
         [where kvs = "[(''words_result'', JArr ?mixed)]" and prefix = msg_ocr_accurate_error
            and items = ?mixed] mixed
  have fourth: "extract_words msg_ocr_accurate_error (JObj [(''words_result'', JArr ?mixed)])
                  = Inl (AttributeError ''get'')"
    by blast
  from extract_words_characterised
         [where kvs = "[(''words_result'', JStr [])]" and prefix = msg_ocr_accurate_error
            and chars = "[]"] empty_string
  have fifth: "extract_words msg_ocr_accurate_error (JObj [(''words_result'', JStr [])])
                 = Inr []"
    by simp
  from extract_words_characterised
         [where kvs = "[(''words_result'', JObj [(''k'', JNull)])]"
            and prefix = msg_ocr_accurate_error and members = "[(''k'', JNull)]"] keyed
  have sixth: "extract_words msg_ocr_accurate_error
                 (JObj [(''words_result'', JObj [(''k'', JNull)])])
               = Inl (AttributeError ''get'')"
    by simp
  from first second third fourth fifth sixth show ?thesis by simp
qed

section \<open>Properties of the DingTalk assistant\<close>

lemmas send_defs =
  send_text_message_def send_markdown_message_def send_link_message_def batch_send_def

lemma snd_post_and_decode: "snd (post_and_decode net req) = [req]"
  by (simp add: post_and_decode_def split: sum.splits option.splits)

text \<open>
  Claim C9.  With no access token set (\<open>None\<close> or the empty string), \<open>send_text_message\<close>
  raises \<open>ValueError\<close> and sends nothing, whereas \<open>send_markdown_message\<close>,
  \<open>send_link_message\<close> and \<open>batch_send\<close> each send exactly one request, the request of
  the operation (batch-send URL, message key and parameters of the operation), whose token
  header is the unset token.
\<close>

theorem only_text_message_checks_token:
  assumes "\<not> truthy (access_token c)"
  shows "send_text_message net env c user_id content robot_code
           = (Inl (ValueError [Lit msg_token_unset]), [])
       \<and> snd (send_markdown_message net env c user_id title descr robot_code)
           = [send_request c (py_or robot_code (env ''DINGTALK_ROBOT_CODE''))
                (JArr [JStr user_id]) ''sampleMarkdown''
                (JObj [(''title'', JStr title), (''text'', JStr descr)])]
       \<and> snd (send_link_message net env c user_id title descr url pic robot_code)
           = [send_request c (py_or robot_code (env ''DINGTALK_ROBOT_CODE''))
                (JArr [JStr user_id]) ''sampleLink''
                (JObj ([(''title'', JStr title), (''text'', JStr descr),
                        (''messageUrl'', JStr url)]
                       @ (if truthy pic then [(''picUrl'', opt_json pic)] else [])))]
       \<and> snd (batch_send net env c user_ids msg_key msg_param robot_code)
           = [send_request c (py_or robot_code (env ''DINGTALK_ROBOT_CODE''))
                (JArr (map JStr user_ids)) msg_key msg_param]"
proof -
  have "send_text_message net env c user_id content robot_code
          = (Inl (ValueError [Lit msg_token_unset]), [])"
    using assms by (simp add: send_text_message_def)
  then show ?thesis
    by (simp add: send_markdown_message_def send_link_message_def batch_send_def
          snd_post_and_decode Let_def)
qed

theorem only_text_message_checks_token_witness:
  "\<not> truthy (access_token (DingTalkAssistant_init Map.empty None None))
   \<and> send_text_message accepting (env_robot ''robotA'')
       (DingTalkAssistant_init Map.empty None None) ''user1'' ''hello'' None
     = (Inl (ValueError [Lit msg_token_unset]), [])
   \<and> snd (send_markdown_message accepting (env_robot ''robotA'')
            (DingTalkAssistant_init Map.empty None None) ''user1'' ''Title'' ''hello'' None)
     = [\<lparr> req_url = ''https://api.dingtalk.com/v1.0/robot/oToMessages/batchSend'',
          req_headers = [(''x-acs-dingtalk-access-token'', None),
                         (''Content-Type'', Some ''application/json'')],
          req_body = JsonData (JObj
            [(''robotCode'', JStr ''robotA''),
             (''userIds'', JArr [JStr ''user1'']),
             (''msgKey'', JStr ''sampleMarkdown''),
             (''msgParam'', JStr (json_dumps (JObj [(''title'', JStr ''Title''),
                                                    (''text'', JStr ''hello'')])))]),
          req_proxy = None \<rparr>]
   \<and> snd (send_link_message accepting (env_robot ''robotA'')
            (DingTalkAssistant_init Map.empty None None)
            ''user1'' ''Title'' ''hello'' ''https://example.org'' (Some ''https://example.org/p.png'')
            None)
     = [\<lparr> req_url = ''https://api.dingtalk.com/v1.0/robot/oToMessages/batchSend'',
          req_headers = [(''x-acs-dingtalk-access-token'', None),
                         (''Content-Type'', Some ''application/json'')],
          req_body = JsonData (JObj
            [(''robotCode'', JStr ''robotA''),
             (''userIds'', JArr [JStr ''user1'']),
             (''msgKey'', JStr ''sampleLink''),
             (''msgParam'', JStr (json_dumps (JObj [(''title'', JStr ''Title''),
                                                    (''text'', JStr ''hello''),
                                                    (''messageUrl'', JStr ''https://example.org''),
                                                    (''picUrl'', JStr ''https://example.org/p.png'')])))]),
          req_proxy = None \<rparr>]
   \<and> snd (batch_send accepting (env_robot ''robotA'')
            (DingTalkAssistant_init Map.empty None None) [''user1'', ''user2''] ''sampleText''
            (JObj [(''content'', JStr ''hello'')]) None)
     = [\<lparr> req_url = ''https://api.dingtalk.com/v1.0/robot/oToMessages/batchSend'',
          req_headers = [(''x-acs-dingtalk-access-token'', None),
                         (''Content-Type'', Some ''application/json'')],
          req_body = JsonData (JObj
            [(''robotCode'', JStr ''robotA''),
             (''userIds'', JArr [JStr ''user1'', JStr ''user2'']),
             (''msgKey'', JStr ''sampleText''),
             (''msgParam'', JStr (json_dumps (JObj [(''content'', JStr ''hello'')])))]),
          req_proxy = None \<rparr>]"
proof -
  have unset: "\<not> truthy (access_token (DingTalkAssistant_init Map.empty None None))"
    by (simp add: DingTalkAssistant_init_def py_or_def truthy_def)
  have code: "py_or None (env_robot ''robotA'' ''DINGTALK_ROBOT_CODE'') = Some ''robotA''"
    by (simp add: py_or_def truthy_def env_robot_def)
  have pic: "truthy (Some ''https://example.org/p.png'')"
    by (simp add: truthy_def)
  from only_text_message_checks_token
         [where c = "DingTalkAssistant_init Map.empty None None" and net = accepting
            and env = "env_robot ''robotA''" and user_id = "''user1''" and content = "''hello''"
            and robot_code = None and title = "''Title''" and descr = "''hello''"
            and url = "''https://example.org''" and pic = "Some ''https://example.org/p.png''"
            and user_ids = "[''user1'', ''user2'']" and msg_key = "''sampleText''"
            and msg_param = "JObj [(''content'', JStr ''hello'')]", OF unset]
  show ?thesis
    using unset
    by (simp only: code pic if_True)
       (simp add: send_request_def DingTalkAssistant_init_def py_or_def truthy_def opt_json_def)
qed

text \<open>
  The robot code is read from the environment when a message is sent: the same client,
  built once, sends a different request after \<open>DINGTALK_ROBOT_CODE\<close> has changed.
\<close>

theorem robot_code_reread_at_send:
  "snd (send_text_message accepting (env_robot ''robotB'')
          (DingTalkAssistant_init (env_robot ''robotA'') None None) ''user1'' ''hello'' None)
   \<noteq> snd (send_text_message accepting (env_robot ''robotA'')
          (DingTalkAssistant_init (env_robot ''robotA'') None None) ''user1'' ''hello'' None)"
  by (simp add: send_text_message_def DingTalkAssistant_init_def env_robot_def py_or_def
        truthy_def post_and_decode_def accepting_def send_request_def opt_json_def)

text \<open>
  Claim C5, as the code has it.  The access token default is read by the constructor, and
  the send operations use the token of the client.  A send operation reads the environment
  only for \<open>DINGTALK_ROBOT_CODE\<close>, and only when no robot code is passed: under two
  environments that agree on that variable, or with a robot code given, every send
  operation does the same (same result, same request).
\<close>

theorem send_depends_on_robot_code_only:
  assumes "truthy robot_code \<or> env_a ''DINGTALK_ROBOT_CODE'' = env_b ''DINGTALK_ROBOT_CODE''"
  shows "access_token (DingTalkAssistant_init env_init token prx)
           = py_or token (env_init ''DINGTALK_ACCESS_TOKEN'')
       \<and> send_text_message net env_a c user_id content robot_code
           = send_text_message net env_b c user_id content robot_code
       \<and> send_markdown_message net env_a c user_id title txt robot_code
           = send_markdown_message net env_b c user_id title txt robot_code
       \<and> send_link_message net env_a c user_id title txt url pic robot_code
           = send_link_message net env_b c user_id title txt url pic robot_code
       \<and> batch_send net env_a c user_ids msg_key msg_param robot_code
           = batch_send net env_b c user_ids msg_key msg_param robot_code"
  using assms by (auto simp add: send_defs py_or_def DingTalkAssistant_init_def)

theorem send_depends_on_robot_code_only_witness:
  "truthy (Some ''robotC'')
   \<and> send_text_message accepting (env_robot ''robotA'')
       (DingTalkAssistant_init (env_robot ''robotA'') None None) ''user1'' ''hello''
       (Some ''robotC'')
     = send_text_message accepting (env_robot ''robotB'')
         (DingTalkAssistant_init (env_robot ''robotA'') None None) ''user1'' ''hello''
         (Some ''robotC'')
   \<and> access_token (DingTalkAssistant_init (env_robot ''robotA'') None None) = Some ''token0''"
proof -
  have given: "truthy (Some ''robotC'')" by (simp add: truthy_def)
  then have hyp: "truthy (Some ''robotC'')
                  \<or> env_robot ''robotA'' ''DINGTALK_ROBOT_CODE''
                      = env_robot ''robotB'' ''DINGTALK_ROBOT_CODE''"
    by simp
  from send_depends_on_robot_code_only
         [where robot_code = "Some ''robotC''" and env_a = "env_robot ''robotA''"
            and env_b = "env_robot ''robotB''" and env_init = "env_robot ''robotA''"
            and token = None and prx = None and net = accepting
            and c = "DingTalkAssistant_init (env_robot ''robotA'') None None"
            and user_id = "''user1''" and content = "''hello''", OF hyp]
  show ?thesis
    using given by (simp add: py_or_def truthy_def env_robot_def)
qed

section \<open>Properties of the speech recognizer\<close>

lemmas sample_defs =
  no_ffmpeg_def failing_ffmpeg_def working_ffmpeg_def default_recognizer_def default_config_def
  voice_world_def fresh_tmp_def

lemmas asr_defs =
  recognize_audio_def convert_audio_format_def named_temporary_file_def add_event_def
  recognize_with_google_def recognize_with_vosk_def failure_def truthy_def os_remove_def Let_def

lemma log_google:
  "log (snd (recognize_with_google env r p w)) = log w @ [GoogleCall p]"
  by (simp add: recognize_with_google_def add_event_def Let_def
        split: prod.splits google_outcome.splits)

lemma log_vosk:
  "log (snd (recognize_with_vosk env r p w)) = log w @ [VoskCall p]"
  by (simp add: recognize_with_vosk_def add_event_def Let_def
        split: prod.splits vosk_outcome.splits)

lemma vosk_calls_convert:
  "filter is_vosk_call (log (snd (convert_audio_format env r p fmt w)))
     = filter is_vosk_call (log w)"
  by (simp add: convert_audio_format_def named_temporary_file_def add_event_def Let_def
        is_vosk_call_def split: prod.splits proc.splits)

lemma log_os_remove: "log (os_remove p w) = log w @ [Removed p]"
  by (simp add: os_remove_def add_event_def)

text \<open>
  Claim C4.  In hybrid mode, on an existing file, let \<open>p\<close> be the path the conversion step
  hands on and \<open>g\<close> the outcome of the cloud engine on \<open>p\<close>.  If \<open>g\<close> has an error or an
  empty text, \<open>recognize_with_vosk\<close> is called exactly once, on \<open>p\<close>, and its result (whatever
  it is, also an empty text with an error) is the final result, relabelled with the mode
  \<open>HYBRID\<close>.  Otherwise the offline engine is not called and \<open>g\<close>, relabelled \<open>HYBRID\<close>, is
  the final result.
\<close>

theorem hybrid_fallback:
  assumes "cfg_mode (config r) = HYBRID" and "audio_path \<in> files w"
    and "conv = (if auto_convert_formats (config r)
                 then convert_audio_format env r audio_path ''wav'' w
                 else (Inr audio_path, w))"
    and "fst conv = Inr p"
    and "g = recognize_with_google env r p (snd conv)"
    and "out = recognize_audio env r audio_path w"
  shows "(if truthy (error (fst g)) \<or> res_text (fst g) = []
          then fst out = (fst (recognize_with_vosk env r p (snd g)))\<lparr>mode := HYBRID\<rparr>
               \<and> filter is_vosk_call (log (snd out))
                   = filter is_vosk_call (log w) @ [VoskCall p]
          else fst out = (fst g)\<lparr>mode := HYBRID\<rparr>
               \<and> filter is_vosk_call (log (snd out)) = filter is_vosk_call (log w))"
proof -
  obtain wc where conv: "conv = (Inr p, wc)" using assms(4) by (cases conv) auto
  have conv_eq: "(if auto_convert_formats (config r)
                  then convert_audio_format env r audio_path ''wav'' w
                  else (Inr audio_path, w)) = (Inr p, wc)"
    using assms(3) conv by simp
  have cl: "filter is_vosk_call (log wc) = filter is_vosk_call (log w)"
    using conv_eq
    by (auto simp add: vosk_calls_convert split: if_splits
          dest: arg_cong [where f = "\<lambda>x. filter is_vosk_call (log (snd x))"])
  obtain gr wg where g: "recognize_with_google env r p wc = (gr, wg)" by fastforce
  have lg: "log wg = log wc @ [GoogleCall p]"
    using log_google [of env r p wc] g by simp
  obtain vr wv where v: "recognize_with_vosk env r p wg = (vr, wv)" by fastforce
  have lv: "log wv = log wg @ [VoskCall p]"
    using log_vosk [of env r p wg] v by simp
  have g': "g = (gr, wg)" using assms(5) conv g by simp
  show ?thesis
  proof (cases "truthy (error gr) \<or> res_text gr = []")
    case True
    then have "recognize_audio env r audio_path w =
                 (vr\<lparr>mode := HYBRID\<rparr>,
                  if (auto_convert_formats (config r) \<and> p \<noteq> audio_path) \<and> p \<in> files wv
                  then os_remove p wv else wv)"
      using assms(1,2) by (simp add: recognize_audio_def conv_eq g v)
    then show ?thesis
      using True assms(6) g' v lv lg cl
      by (simp add: log_os_remove is_vosk_call_def)
  next
    case False
    then have "recognize_audio env r audio_path w =
                 (gr\<lparr>mode := HYBRID\<rparr>,
                  if (auto_convert_formats (config r) \<and> p \<noteq> audio_path) \<and> p \<in> files wg
                  then os_remove p wg else wg)"
      using assms(1,2) by (simp add: recognize_audio_def conv_eq g)
    then show ?thesis
      using False assms(6) g' lg cl
      by (simp add: log_os_remove is_vosk_call_def)
  qed
qed

theorem hybrid_fallback_witness:
  "cfg_mode (config default_recognizer) = HYBRID
   \<and> ''voice.ogg'' \<in> files voice_world
   \<and> fst (convert_audio_format working_ffmpeg default_recognizer ''voice.ogg'' ''wav'' voice_world)
       = Inr ''/tmp/tmp0.wav''
   \<and> truthy (error (fst (recognize_with_google working_ffmpeg default_recognizer ''/tmp/tmp0.wav''
        (snd (convert_audio_format working_ffmpeg default_recognizer ''voice.ogg'' ''wav''
                voice_world)))))
   \<and> fst (recognize_audio working_ffmpeg default_recognizer ''voice.ogg'' voice_world)
       = failure default_config HYBRID 0 msg_vosk_unloaded
   \<and> filter is_vosk_call
        (log (snd (recognize_audio working_ffmpeg default_recognizer ''voice.ogg'' voice_world)))
       = [VoskCall ''/tmp/tmp0.wav'']"
proof -
  let ?conv = "convert_audio_format working_ffmpeg default_recognizer ''voice.ogg'' ''wav''
                 voice_world"
  let ?g = "recognize_with_google working_ffmpeg default_recognizer ''/tmp/tmp0.wav'' (snd ?conv)"
  have m: "cfg_mode (config default_recognizer) = HYBRID"
    by (simp add: default_recognizer_def default_config_def)
  have f: "''voice.ogg'' \<in> files voice_world"
    by (simp add: voice_world_def)
  have c: "?conv = (if auto_convert_formats (config default_recognizer) then ?conv
                    else (Inr ''voice.ogg'', voice_world))"
    by (simp add: default_recognizer_def default_config_def)
  have p: "fst ?conv = Inr ''/tmp/tmp0.wav''"
    by (simp add: sample_defs asr_defs)
  have t: "truthy (error (fst ?g))"
    by (simp add: sample_defs recognize_with_google_def failure_def truthy_def
          msg_google_request_def Let_def)
  have v: "fst (recognize_with_vosk working_ffmpeg default_recognizer ''/tmp/tmp0.wav'' (snd ?g))
             = failure default_config VOSK 0 msg_vosk_unloaded"
    by (simp add: recognize_with_vosk_def default_recognizer_def add_event_def Let_def)
  from hybrid_fallback [OF m f c p refl refl] t v
  have "fst (recognize_audio working_ffmpeg default_recognizer ''voice.ogg'' voice_world)
          = (failure default_config VOSK 0 msg_vosk_unloaded)\<lparr>mode := HYBRID\<rparr>
        \<and> filter is_vosk_call
            (log (snd (recognize_audio working_ffmpeg default_recognizer ''voice.ogg'' voice_world)))
          = filter is_vosk_call (log voice_world) @ [VoskCall ''/tmp/tmp0.wav'']"
    by simp
  then show ?thesis
    using m f p t by (simp add: failure_def voice_world_def)
qed

text \<open>
  When ffmpeg is missing or exits with code 1, \<open>convert_audio_format\<close> does not raise: it
  returns the original, unconverted path.
\<close>

theorem conversion_failure_returns_input:
  "run no_ffmpeg (convert_cmd default_recognizer ''voice.ogg'' ''/tmp/tmp0.wav'')
       {''/tmp/tmp0.wav'', ''voice.ogg''} = NotFound ''ffmpeg''
   \<and> fst (convert_audio_format no_ffmpeg default_recognizer ''voice.ogg'' ''wav'' voice_world)
       = Inr ''voice.ogg''
   \<and> run failing_ffmpeg (convert_cmd default_recognizer ''voice.ogg'' ''/tmp/tmp0.wav'')
       {''/tmp/tmp0.wav'', ''voice.ogg''} = Exited 1 {''/tmp/tmp0.wav'', ''voice.ogg''}
   \<and> fst (convert_audio_format failing_ffmpeg default_recognizer ''voice.ogg'' ''wav'' voice_world)
       = Inr ''voice.ogg''"
  by (simp add: sample_defs asr_defs)

text \<open>
  Claim C6, as the code has it.  Let \<open>out\<close> and \<open>wav\<close> be the temporary paths the two
  functions create.  \<open>convert_audio_format\<close> returns the original input path when ffmpeg is
  missing or exits non-zero, and the converted path when ffmpeg exits with zero (automatic
  conversion being on); it raises on no path.  \<open>recognize_dingtalk_voice\<close> answers a
  non-zero exit with \<open>recognize_audio\<close> of the original OGG file, and a missing ffmpeg with
  a result of empty text and an error message.
\<close>

theorem transcoding_failure_absorbed:
  assumes "out = mktemp env (files w) (''.'' @ fmt)"
    and "wav = mktemp env (files w) ''.wav''"
    and "w2 = add_event (Ffmpeg (dingtalk_cmd ogg wav)) (snd (named_temporary_file env ''.wav'' w))"
  shows "(\<forall>rc fs msg. run env (convert_cmd r p out) (insert out (files w)) = NotFound msg
            \<or> (run env (convert_cmd r p out) (insert out (files w)) = Exited rc fs \<and> rc \<noteq> 0)
            \<longrightarrow> fst (convert_audio_format env r p fmt w) = Inr p)
       \<and> (\<forall>fs. auto_convert_formats (config r)
              \<and> run env (convert_cmd r p out) (insert out (files w)) = Exited 0 fs
            \<longrightarrow> fst (convert_audio_format env r p fmt w) = Inr out)
       \<and> (\<forall>rc fs. run env (dingtalk_cmd ogg wav) (insert wav (files w)) = Exited rc fs \<and> rc \<noteq> 0
            \<longrightarrow> recognize_dingtalk_voice env r ogg w
                  = (Inr (fst (recognize_audio env r ogg (w2\<lparr>files := fs\<rparr>))),
                     snd (recognize_audio env r ogg (w2\<lparr>files := fs\<rparr>))))
       \<and> (\<forall>msg. run env (dingtalk_cmd ogg wav) (insert wav (files w)) = NotFound msg
            \<longrightarrow> fst (recognize_dingtalk_voice env r ogg w)
                  = Inr (failure (config r) (cfg_mode (config r)) 0 (msg_dingtalk_failed @ msg)))"
  using assms
  by (auto simp add: convert_audio_format_def recognize_dingtalk_voice_def
        named_temporary_file_def add_event_def Let_def split: prod.splits)

theorem transcoding_failure_absorbed_witness:
  "run failing_ffmpeg (convert_cmd default_recognizer ''voice.ogg'' ''/tmp/tmp0.wav'')
       (insert ''/tmp/tmp0.wav'' (files voice_world)) = Exited 1 {''/tmp/tmp0.wav'', ''voice.ogg''}
   \<and> fst (convert_audio_format failing_ffmpeg default_recognizer ''voice.ogg'' ''wav'' voice_world)
       = Inr ''voice.ogg''
   \<and> run no_ffmpeg (dingtalk_cmd ''voice.ogg'' ''/tmp/tmp0.wav'')
       (insert ''/tmp/tmp0.wav'' (files voice_world)) = NotFound ''ffmpeg''
   \<and> fst (recognize_dingtalk_voice no_ffmpeg default_recognizer ''voice.ogg'' voice_world)
       = Inr (failure default_config HYBRID 0 (msg_dingtalk_failed @ ''ffmpeg''))"
proof -
  have out1: "''/tmp/tmp0.wav'' = mktemp failing_ffmpeg (files voice_world) (''.'' @ ''wav'')"
    and out2: "''/tmp/tmp0.wav'' = mktemp no_ffmpeg (files voice_world) ''.wav''"
    and out3: "''/tmp/tmp0.wav'' = mktemp failing_ffmpeg (files voice_world) ''.wav''"
    and out4: "''/tmp/tmp0.wav'' = mktemp no_ffmpeg (files voice_world) (''.'' @ ''wav'')"
    by (simp_all add: sample_defs)
  have run1: "run failing_ffmpeg (convert_cmd default_recognizer ''voice.ogg'' ''/tmp/tmp0.wav'')
                (insert ''/tmp/tmp0.wav'' (files voice_world))
              = Exited 1 {''/tmp/tmp0.wav'', ''voice.ogg''}"
    by (simp add: sample_defs)
  have run2: "run no_ffmpeg (dingtalk_cmd ''voice.ogg'' ''/tmp/tmp0.wav'')
                (insert ''/tmp/tmp0.wav'' (files voice_world)) = NotFound ''ffmpeg''"
    by (simp add: sample_defs)
  from transcoding_failure_absorbed
         [where r = default_recognizer and p = "''voice.ogg''" and ogg = "''voice.ogg''",
          OF out1 out3 refl] run1
  have first: "fst (convert_audio_format failing_ffmpeg default_recognizer ''voice.ogg'' ''wav''
                      voice_world) = Inr ''voice.ogg''"
    by simp
  from transcoding_failure_absorbed
         [where r = default_recognizer and p = "''voice.ogg''" and ogg = "''voice.ogg''",
          OF out4 out2 refl] run2
  have second: "fst (recognize_dingtalk_voice no_ffmpeg default_recognizer ''voice.ogg''
                       voice_world)
                = Inr (failure (config default_recognizer) (cfg_mode (config default_recognizer)) 0
                         (msg_dingtalk_failed @ ''ffmpeg''))"
    by blast
  from first second run1 run2 show ?thesis
    by (simp add: default_recognizer_def default_config_def)
qed

text \<open>
  Claim C7 asks that every temporary file is removed before the call returns.  With ffmpeg
  missing, \<open>recognize_audio\<close> returns while the temporary file that
  \<open>convert_audio_format\<close> created is still there; and when ffmpeg exits with code 1,
  \<open>recognize_dingtalk_voice\<close> leaves behind both its own temporary file and the one of the
  conversion step of its fallback.  With a working ffmpeg both calls remove what they
  created.
\<close>

theorem temp_file_left_behind:
  "''/tmp/tmp0.wav'' \<notin> files voice_world
   \<and> List.member
        (log (snd (recognize_audio no_ffmpeg default_recognizer ''voice.ogg'' voice_world)))
        (TempFile ''/tmp/tmp0.wav'')
   \<and> files (snd (recognize_audio no_ffmpeg default_recognizer ''voice.ogg'' voice_world))
       = {''/tmp/tmp0.wav'', ''voice.ogg''}
   \<and> files (snd (recognize_dingtalk_voice failing_ffmpeg default_recognizer ''voice.ogg''
                   voice_world))
       = {''/tmp/tmp0.wav'', ''/tmp/tmp1.wav'', ''voice.ogg''}"
  by (simp add: sample_defs asr_defs recognize_dingtalk_voice_def insert_commute)

lemma temp_file_removed_on_success:
  "files (snd (recognize_audio working_ffmpeg default_recognizer ''voice.ogg'' voice_world))
     = {''voice.ogg''}
   \<and> files (snd (recognize_dingtalk_voice working_ffmpeg default_recognizer ''voice.ogg''
                   voice_world))
     = {''voice.ogg''}"
  by (simp add: sample_defs asr_defs recognize_dingtalk_voice_def)

end
